theory Spec2Isabelle
  imports Main
begin

section \<open>Configuration read from the environment (app.go: initDB, main)\<close>

text \<open>
  The process environment is the list of its \<open>KEY=value\<close> entries. \<open>os.Getenv\<close>
  returns the value of the key, and the empty string when the key is not present: the
  caller cannot tell an unset variable from one set to the empty string.
\<close>

type_synonym environ = "(string \<times> string) list"

definition Getenv :: "environ \<Rightarrow> string \<Rightarrow> string" where
  "Getenv env key = (case map_of env key of None \<Rightarrow> [] | Some v \<Rightarrow> v)"

definition AppPortEnvKey :: string where "AppPortEnvKey = ''APP_PORT''"
definition DbUserEnvKey :: string where "DbUserEnvKey = ''DB_USER''"
definition DbPasswordEnvKey :: string where "DbPasswordEnvKey = ''DB_PASSWORD''"
definition DbHostEnvKey :: string where "DbHostEnvKey = ''DB_HOST''"
definition DbPortEnvKey :: string where "DbPortEnvKey = ''DB_PORT''"
definition DbNameEnvKey :: string where "DbNameEnvKey = ''DB_NAME''"

text \<open>The five local variables of \<open>initDB\<close> after its four \<open>if ... == ""\<close> statements.\<close>

record db_settings =
  dbUser :: string
  dbPassword :: string
  dbHost :: string
  dbPort :: string
  dbName :: string

definition initDB_settings :: "environ \<Rightarrow> db_settings" where
  "initDB_settings env =
     (let dbPassword = Getenv env DbPasswordEnvKey;
          dbUser = Getenv env DbUserEnvKey;
          dbHost = Getenv env DbHostEnvKey;
          dbPort = Getenv env DbPortEnvKey;
          dbName = Getenv env DbNameEnvKey;
          dbUser = (if dbUser = [] then ''postgres'' else dbUser);
          dbHost = (if dbHost = [] then ''localhost'' else dbHost);
          dbPort = (if dbPort = [] then ''5432'' else dbPort);
          dbName = (if dbName = [] then ''postgres'' else dbName)
      in \<lparr>dbUser = dbUser, dbPassword = dbPassword, dbHost = dbHost,
          dbPort = dbPort, dbName = dbName\<rparr>)"

text \<open>
  The connection string handed to \<open>pgxpool.New\<close>:
  \<open>fmt.Sprintf("postgres://%s:%s@%s:%s/%s?sslmode=disable", dbUser, dbPassword, dbHost,
  dbPort, dbName)\<close>. The verb \<open>%s\<close> copies a string as it is.
\<close>

definition initDB_connString :: "environ \<Rightarrow> string" where
  "initDB_connString env =
     (let s = initDB_settings env
      in ''postgres://'' @ dbUser s @ '':'' @ dbPassword s @ ''@'' @ dbHost s @ '':'' @
         dbPort s @ ''/'' @ dbName s @ ''?sslmode=disable'')"

text \<open>The port of \<open>main\<close> and the address given to \<open>http.ListenAndServe\<close>.\<close>

definition main_port :: "environ \<Rightarrow> string" where
  "main_port env = (let port = Getenv env AppPortEnvKey in if port = [] then ''8080'' else port)"

definition main_listenAddr :: "environ \<Rightarrow> string" where
  "main_listenAddr env = '':'' @ main_port env"

section \<open>Library code the handlers call: unicode/utf8, strconv, encoding/json\<close>

text \<open>
  A Go string is a sequence of bytes; \<open>string\<close> here is the same (a \<open>char\<close> is one
  byte). The handlers hand request bodies to \<open>json.Decoder\<close> and write responses with
  \<open>json.Encoder\<close>. Both belong to the Go standard library (the image is built with Go
  1.24); the definitions of this section follow that library function by function, and
  keep its names.
\<close>

definition byte :: "char \<Rightarrow> nat" where "byte c = of_char c"

subsection \<open>unicode/utf8\<close>

definition RuneError :: nat where "RuneError = 0xFFFD"

definition contByte :: "char \<Rightarrow> bool" where
  "contByte c = (0x80 \<le> byte c \<and> byte c \<le> 0xBF)"

definition low6 :: "char \<Rightarrow> nat" where "low6 c = byte c mod 64"

text \<open>
  \<open>utf8.DecodeRune\<close>: the first code point of \<open>p\<close> and its width in bytes;
  \<open>(RuneError, 1)\<close> for a byte that starts no well-formed encoding (overlong forms,
  surrogates and values past U+10FFFF are not well formed), \<open>(RuneError, 0)\<close> for the
  empty input.
\<close>

definition DecodeRune :: "string \<Rightarrow> nat \<times> nat" where
  "DecodeRune p =
     (case p of
        [] \<Rightarrow> (RuneError, 0)
      | c0 # cs \<Rightarrow>
          (let b0 = byte c0 in
           if b0 < 0x80 then (b0, 1)
           else if 0xC2 \<le> b0 \<and> b0 \<le> 0xDF then
             (case cs of
                c1 # _ \<Rightarrow>
                  if contByte c1 then ((b0 mod 32) * 64 + low6 c1, 2) else (RuneError, 1)
              | _ \<Rightarrow> (RuneError, 1))
           else if 0xE0 \<le> b0 \<and> b0 \<le> 0xEF then
             (case cs of
                c1 # c2 # _ \<Rightarrow>
                  if (if b0 = 0xE0 then 0xA0 else 0x80) \<le> byte c1 \<and>
                     byte c1 \<le> (if b0 = 0xED then 0x9F else 0xBF) \<and> contByte c2
                  then ((b0 mod 16) * 4096 + low6 c1 * 64 + low6 c2, 3)
                  else (RuneError, 1)
              | _ \<Rightarrow> (RuneError, 1))
           else if 0xF0 \<le> b0 \<and> b0 \<le> 0xF4 then
             (case cs of
                c1 # c2 # c3 # _ \<Rightarrow>
                  if (if b0 = 0xF0 then 0x90 else 0x80) \<le> byte c1 \<and>
                     byte c1 \<le> (if b0 = 0xF4 then 0x8F else 0xBF) \<and>
                     contByte c2 \<and> contByte c3
                  then ((b0 mod 8) * 262144 + low6 c1 * 4096 + low6 c2 * 64 + low6 c3, 4)
                  else (RuneError, 1)
              | _ \<Rightarrow> (RuneError, 1))
           else (RuneError, 1)))"

text \<open>\<open>utf8.EncodeRune\<close>: a surrogate or a value past U+10FFFF is written as U+FFFD.\<close>

definition EncodeRune :: "nat \<Rightarrow> string" where
  "EncodeRune r =
     (if r \<le> 0x7F then [char_of r]
      else if r \<le> 0x7FF then [char_of (0xC0 + r div 64), char_of (0x80 + r mod 64)]
      else
        (let r = (if 0x10FFFF < r \<or> (0xD800 \<le> r \<and> r \<le> 0xDFFF) then RuneError else r) in
         if r \<le> 0xFFFF then
           [char_of (0xE0 + r div 4096), char_of (0x80 + r div 64 mod 64),
            char_of (0x80 + r mod 64)]
         else
           [char_of (0xF0 + r div 262144), char_of (0x80 + r div 4096 mod 64),
            char_of (0x80 + r div 64 mod 64), char_of (0x80 + r mod 64)]))"

subsection \<open>strconv\<close>

definition hex :: "nat \<Rightarrow> char" where
  "hex n = ''0123456789abcdef'' ! (n mod 16)"

fun formatNat :: "nat \<Rightarrow> string" where
  "formatNat n =
     (if n < 10 then [char_of (48 + n)] else formatNat (n div 10) @ [char_of (48 + n mod 10)])"

text \<open>
  The decimal text of a Go \<open>int\<close>, as the encoder writes it (\<open>strconv.AppendInt\<close> in
  base 10). An id is a value of a 32-bit \<open>SERIAL\<close> column read into a 64-bit \<open>int\<close>, so
  no arithmetic of the program can overflow and \<open>int\<close> stands for it.
\<close>

definition Itoa :: "int \<Rightarrow> string" where
  "Itoa i = (if i < 0 then CHR ''-'' # formatNat (nat (- i)) else formatNat (nat i))"

subsection \<open>encoding/json: writing a string\<close>

text \<open>
  \<open>appendString\<close> with \<open>escapeHTML\<close> set, as \<open>json.Encoder\<close> has it by default. A
  byte below 0x80 is copied when it is in \<open>htmlSafeSet\<close>. The quote and the backslash
  get a backslash in front; backspace, form feed, line feed, carriage return and tab
  their two-character form; every other control character and the characters
  \<open><\<close>, \<open>>\<close>, \<open>&\<close> the six-character form with \<open>u00\<close> and two hexadecimal digits.
  A byte that starts no well-formed UTF-8 sequence is written as the escape of U+FFFD;
  U+2028 and U+2029 are written as their escapes; any other code point is copied.
\<close>

definition htmlSafe :: "nat \<Rightarrow> bool" where
  "htmlSafe b =
     (0x20 \<le> b \<and> b < 0x80 \<and> b \<noteq> 0x22 \<and> b \<noteq> 0x5C \<and> b \<noteq> 0x3C \<and> b \<noteq> 0x3E \<and> b \<noteq> 0x26)"

definition escapeByte :: "char \<Rightarrow> string" where
  "escapeByte c =
     (let b = byte c in
      if b = 0x5C \<or> b = 0x22 then [CHR 0x5C, c]
      else if b = 0x08 then [CHR 0x5C, CHR ''b'']
      else if b = 0x0C then [CHR 0x5C, CHR ''f'']
      else if b = 0x0A then [CHR 0x5C, CHR ''n'']
      else if b = 0x0D then [CHR 0x5C, CHR ''r'']
      else if b = 0x09 then [CHR 0x5C, CHR ''t'']
      else [CHR 0x5C, CHR ''u'', CHR ''0'', CHR ''0'', hex (b div 16), hex (b mod 16)])"

fun appendChars :: "string \<Rightarrow> string" where
  "appendChars [] = []"
| "appendChars (c # cs) =
     (if byte c < 0x80 then
        (if htmlSafe (byte c) then [c] else escapeByte c) @ appendChars cs
      else
        (let (r, size) = DecodeRune (c # cs) in
         if r = RuneError \<and> size = 1 then
           [CHR 0x5C, CHR ''u'', CHR ''f'', CHR ''f'', CHR ''f'', CHR ''d''] @ appendChars cs
         else if r = 0x2028 \<or> r = 0x2029 then
           [CHR 0x5C, CHR ''u'', CHR ''2'', CHR ''0'', CHR ''2'', hex (r mod 16)] @
           appendChars (drop (size - 1) cs)
         else c # take (size - 1) cs @ appendChars (drop (size - 1) cs)))"

definition appendString :: "string \<Rightarrow> string" where
  "appendString src = [CHR 0x22] @ appendChars src @ [CHR 0x22]"

subsection \<open>encoding/json: values and errors\<close>

text \<open>
  \<open>Decoder.Decode\<close> works in two passes over the bytes: the scanner finds where the
  next value ends and refuses anything that is not JSON; the value is then stored in the
  Go variable. The scanner here returns the value it has delimited as a tree, with object
  members and array elements in the order of the text and with strings already unquoted;
  the second pass reads that tree. A number keeps its text.
\<close>

datatype json =
    JNull
  | JBool bool
  | JNumber string
  | JString string
  | JArray "json list"
  | JObject "(string \<times> json) list"

text \<open>
  The errors \<open>Decode\<close> can return here: \<open>io.EOF\<close>, \<open>io.ErrUnexpectedEOF\<close>,
  \<open>*json.SyntaxError\<close>, \<open>*json.UnmarshalTypeError\<close> (with the kind of JSON value that
  did not fit) and the error for a key that names no field when unknown fields are
  disallowed.
\<close>

datatype json_error =
    EOF
  | ErrUnexpectedEOF
  | SyntaxError
  | UnmarshalTypeError string
  | UnknownField string

subsection \<open>encoding/json: unquoteBytes\<close>

definition hexval :: "char \<Rightarrow> nat option" where
  "hexval c =
     (let b = byte c in
      if 0x30 \<le> b \<and> b \<le> 0x39 then Some (b - 0x30)
      else if 0x61 \<le> b \<and> b \<le> 0x66 then Some (b - 0x61 + 10)
      else if 0x41 \<le> b \<and> b \<le> 0x46 then Some (b - 0x41 + 10)
      else None)"

text \<open>\<open>getu4\<close>: the value of a backslash, \<open>u\<close> and four hexadecimal digits at the head of \<open>s\<close>.\<close>

definition getu4 :: "string \<Rightarrow> nat option" where
  "getu4 s =
     (case s of
        c0 # c1 # h0 # h1 # h2 # h3 # _ \<Rightarrow>
          if c0 = CHR 0x5C \<and> c1 = CHR ''u'' then
            (case (hexval h0, hexval h1, hexval h2, hexval h3) of
               (Some a, Some b, Some c, Some d) \<Rightarrow> Some (((a * 16 + b) * 16 + c) * 16 + d)
             | _ \<Rightarrow> None)
          else None
      | _ \<Rightarrow> None)"

definition IsSurrogate :: "nat \<Rightarrow> bool" where
  "IsSurrogate r = (0xD800 \<le> r \<and> r < 0xE000)"

text \<open>\<open>utf16.DecodeRune\<close>; the second argument is \<open>None\<close> where \<open>getu4\<close> found no escape.\<close>

definition utf16_DecodeRune :: "nat \<Rightarrow> nat option \<Rightarrow> nat" where
  "utf16_DecodeRune r1 r2 =
     (case r2 of
        Some r2 \<Rightarrow>
          if 0xD800 \<le> r1 \<and> r1 < 0xDC00 \<and> 0xDC00 \<le> r2 \<and> r2 < 0xE000
          then (r1 - 0xD800) * 1024 + (r2 - 0xDC00) + 0x10000
          else RuneError
      | None \<Rightarrow> RuneError)"

definition simpleEscape :: "char \<Rightarrow> char option" where
  "simpleEscape c =
     (if c = CHR 0x22 \<or> c = CHR 0x5C \<or> c = CHR ''/'' \<or> c = CHR 0x27 then Some c
      else if c = CHR ''b'' then Some (CHR 0x08)
      else if c = CHR ''f'' then Some (CHR 0x0C)
      else if c = CHR ''n'' then Some (CHR 0x0A)
      else if c = CHR ''r'' then Some (CHR 0x0D)
      else if c = CHR ''t'' then Some (CHR 0x09)
      else None)"

text \<open>
  \<open>unquoteBytes\<close> on the bytes between the quotes of a string literal: escapes are
  replaced, a surrogate pair of two \<open>u\<close> escapes gives one code point, a lone surrogate
  gives U+FFFD, and bytes that are not well-formed UTF-8 are replaced by U+FFFD one byte
  at a time. \<open>None\<close> is the result \<open>ok = false\<close>.
\<close>

fun unquoteChars :: "string \<Rightarrow> string option" where
  "unquoteChars [] = Some []"
| "unquoteChars (c # cs) =
     (if c = CHR 0x5C then
        (case cs of
           [] \<Rightarrow> None
         | e # es \<Rightarrow>
             if e = CHR ''u'' then
               (case getu4 (c # cs) of
                  None \<Rightarrow> None
                | Some rr \<Rightarrow>
                    if IsSurrogate rr then
                      (let dec = utf16_DecodeRune rr (getu4 (drop 5 cs)) in
                       if dec \<noteq> RuneError
                       then map_option ((@) (EncodeRune dec)) (unquoteChars (drop 11 cs))
                       else map_option ((@) (EncodeRune RuneError)) (unquoteChars (drop 5 cs)))
                    else map_option ((@) (EncodeRune rr)) (unquoteChars (drop 5 cs)))
             else
               (case simpleEscape e of
                  None \<Rightarrow> None
                | Some d \<Rightarrow> map_option ((#) d) (unquoteChars es)))
      else if c = CHR 0x22 \<or> byte c < 0x20 then None
      else if byte c < 0x80 then map_option ((#) c) (unquoteChars cs)
      else
        (let (rr, size) = DecodeRune (c # cs)
         in map_option ((@) (EncodeRune rr)) (unquoteChars (drop (size - 1) cs))))"

subsection \<open>encoding/json: the scanner (scanner.go)\<close>

text \<open>
  The scanner is a state machine fed one byte at a time. Its \<open>parseState\<close> stack says
  what encloses the current position: an object whose next token is a key or the colon
  (\<open>parseObjectKey\<close>), an object whose member value is being read or has been read
  (\<open>parseObjectValue\<close>), or an array (\<open>parseArrayValue\<close>). A frame here carries, besides
  that tag, what has been read of the object or array so far: the members, and the key
  whose value has not been stored yet.
\<close>

datatype frame =
    ObjectKey "(string \<times> json) list" "string option"
  | ObjectValue "(string \<times> json) list" "string option"
  | ArrayValue "json list"

text \<open>
  The \<open>step\<close> function of the scanner, one constructor per state function of
  scanner.go. The states inside a literal carry the bytes read of it so far; the states
  \<open>stateT\<close>, \<open>stateTr\<close>, ... \<open>stateNul\<close> are \<open>Literal\<close> with the bytes still expected, and
  \<open>stateInStringEscU\<close>, \<open>...U1\<close>, \<open>...U12\<close>, \<open>...U123\<close> are \<open>InStringEscU\<close> with the number
  of hexadecimal digits read.
\<close>

datatype mode =
    BeginValue
  | BeginValueOrEmpty
  | BeginStringOrEmpty
  | BeginString
  | EndValue
  | InString string
  | InStringEsc string
  | InStringEscU string nat
  | Neg string
  | State0 string
  | State1 string
  | Dot string
  | Dot0 string
  | StateE string
  | ESign string
  | E0 string
  | Literal string json

text \<open>
  What a byte does: the scan goes on in a new state, the top-level value is complete
  (\<open>scanEnd\<close>), or the byte is a syntax error (\<open>scanError\<close>).
\<close>

datatype scan = Continue mode "frame list" | EndTop json | ScanError

definition maxNestingDepth :: nat where "maxNestingDepth = 10000"

definition isSpace :: "char \<Rightarrow> bool" where
  "isSpace c = (c = CHR '' '' \<or> c = CHR 0x09 \<or> c = CHR 0x0D \<or> c = CHR 0x0A)"

definition isDigit :: "char \<Rightarrow> bool" where
  "isDigit c = (0x30 \<le> byte c \<and> byte c \<le> 0x39)"

text \<open>
  A value has been read to its last byte. With an empty stack it is the top-level value.
  Inside an object it is the key (only a string can stand there) or the value of the
  pending key; inside an array it is the next element.
\<close>

definition valueDone :: "json \<Rightarrow> frame list \<Rightarrow> scan" where
  "valueDone v st =
     (case st of
        [] \<Rightarrow> EndTop v
      | ObjectKey ms None # st' \<Rightarrow>
          (case v of
             JString k \<Rightarrow> Continue EndValue (ObjectKey ms (Some k) # st')
           | _ \<Rightarrow> ScanError)
      | ObjectKey ms (Some k) # st' \<Rightarrow> ScanError
      | ObjectValue ms (Some k) # st' \<Rightarrow>
          Continue EndValue (ObjectValue (ms @ [(k, v)]) None # st')
      | ObjectValue ms None # st' \<Rightarrow> ScanError
      | ArrayValue es # st' \<Rightarrow> Continue EndValue (ArrayValue (es @ [v]) # st'))"

definition stateEndValue :: "frame list \<Rightarrow> char \<Rightarrow> scan" where
  "stateEndValue st c =
     (if st = [] then ScanError
      else if isSpace c then Continue EndValue st
      else
        (case st of
           ObjectKey ms (Some k) # st' \<Rightarrow>
             if c = CHR '':'' then Continue BeginValue (ObjectValue ms (Some k) # st')
             else ScanError
         | ObjectValue ms None # st' \<Rightarrow>
             if c = CHR '','' then Continue BeginString (ObjectKey ms None # st')
             else if c = CHR ''}'' then valueDone (JObject ms) st'
             else ScanError
         | ArrayValue es # st' \<Rightarrow>
             if c = CHR '','' then Continue BeginValue st
             else if c = CHR '']'' then valueDone (JArray es) st'
             else ScanError
         | _ \<Rightarrow> ScanError))"

definition pushParseState :: "frame \<Rightarrow> frame list \<Rightarrow> mode \<Rightarrow> scan" where
  "pushParseState f st successState =
     (if length (f # st) \<le> maxNestingDepth then Continue successState (f # st) else ScanError)"

definition stateBeginValue :: "frame list \<Rightarrow> char \<Rightarrow> scan" where
  "stateBeginValue st c =
     (if isSpace c then Continue BeginValue st
      else if c = CHR ''{'' then pushParseState (ObjectKey [] None) st BeginStringOrEmpty
      else if c = CHR ''['' then pushParseState (ArrayValue []) st BeginValueOrEmpty
      else if c = CHR 0x22 then Continue (InString []) st
      else if c = CHR ''-'' then Continue (Neg [c]) st
      else if c = CHR ''0'' then Continue (State0 [c]) st
      else if c = CHR ''t'' then Continue (Literal ''rue'' (JBool True)) st
      else if c = CHR ''f'' then Continue (Literal ''alse'' (JBool False)) st
      else if c = CHR ''n'' then Continue (Literal ''ull'' JNull) st
      else if isDigit c then Continue (State1 [c]) st
      else ScanError)"

definition stateBeginValueOrEmpty :: "frame list \<Rightarrow> char \<Rightarrow> scan" where
  "stateBeginValueOrEmpty st c =
     (if isSpace c then Continue BeginValueOrEmpty st
      else if c = CHR '']'' then
        (case st of ArrayValue es # st' \<Rightarrow> valueDone (JArray es) st' | _ \<Rightarrow> ScanError)
      else stateBeginValue st c)"

definition stateBeginString :: "frame list \<Rightarrow> char \<Rightarrow> scan" where
  "stateBeginString st c =
     (if isSpace c then Continue BeginString st
      else if c = CHR 0x22 then Continue (InString []) st
      else ScanError)"

definition stateBeginStringOrEmpty :: "frame list \<Rightarrow> char \<Rightarrow> scan" where
  "stateBeginStringOrEmpty st c =
     (if isSpace c then Continue BeginStringOrEmpty st
      else if c = CHR ''}'' then
        (case st of ObjectKey ms None # st' \<Rightarrow> valueDone (JObject ms) st' | _ \<Rightarrow> ScanError)
      else stateBeginString st c)"

definition stateInString :: "string \<Rightarrow> frame list \<Rightarrow> char \<Rightarrow> scan" where
  "stateInString lit st c =
     (if c = CHR 0x22 then
        (case unquoteChars lit of Some s \<Rightarrow> valueDone (JString s) st | None \<Rightarrow> ScanError)
      else if c = CHR 0x5C then Continue (InStringEsc (lit @ [c])) st
      else if byte c < 0x20 then ScanError
      else Continue (InString (lit @ [c])) st)"

definition stateInStringEsc :: "string \<Rightarrow> frame list \<Rightarrow> char \<Rightarrow> scan" where
  "stateInStringEsc lit st c =
     (if c \<in> set [CHR ''b'', CHR ''f'', CHR ''n'', CHR ''r'', CHR ''t'', CHR 0x5C, CHR ''/'', CHR 0x22]
      then Continue (InString (lit @ [c])) st
      else if c = CHR ''u'' then Continue (InStringEscU (lit @ [c]) 0) st
      else ScanError)"

definition stateInStringEscU :: "string \<Rightarrow> nat \<Rightarrow> frame list \<Rightarrow> char \<Rightarrow> scan" where
  "stateInStringEscU lit n st c =
     (if hexval c = None then ScanError
      else if n < 3 then Continue (InStringEscU (lit @ [c]) (n + 1)) st
      else Continue (InString (lit @ [c])) st)"

text \<open>
  A number ends at the first byte that cannot continue it; that byte is then read in
  \<open>stateEndValue\<close>.
\<close>

definition endNumber :: "string \<Rightarrow> frame list \<Rightarrow> char \<Rightarrow> scan" where
  "endNumber lit st c =
     (case valueDone (JNumber lit) st of
        Continue m st' \<Rightarrow> stateEndValue st' c
      | r \<Rightarrow> r)"

definition stateNeg :: "string \<Rightarrow> frame list \<Rightarrow> char \<Rightarrow> scan" where
  "stateNeg lit st c =
     (if c = CHR ''0'' then Continue (State0 (lit @ [c])) st
      else if isDigit c then Continue (State1 (lit @ [c])) st
      else ScanError)"

definition state0 :: "string \<Rightarrow> frame list \<Rightarrow> char \<Rightarrow> scan" where
  "state0 lit st c =
     (if c = CHR ''.'' then Continue (Dot (lit @ [c])) st
      else if c = CHR ''e'' \<or> c = CHR ''E'' then Continue (StateE (lit @ [c])) st
      else endNumber lit st c)"

definition state1 :: "string \<Rightarrow> frame list \<Rightarrow> char \<Rightarrow> scan" where
  "state1 lit st c =
     (if isDigit c then Continue (State1 (lit @ [c])) st else state0 lit st c)"

definition stateDot :: "string \<Rightarrow> frame list \<Rightarrow> char \<Rightarrow> scan" where
  "stateDot lit st c = (if isDigit c then Continue (Dot0 (lit @ [c])) st else ScanError)"

definition stateDot0 :: "string \<Rightarrow> frame list \<Rightarrow> char \<Rightarrow> scan" where
  "stateDot0 lit st c =
     (if isDigit c then Continue (Dot0 (lit @ [c])) st
      else if c = CHR ''e'' \<or> c = CHR ''E'' then Continue (StateE (lit @ [c])) st
      else endNumber lit st c)"

definition stateESign :: "string \<Rightarrow> frame list \<Rightarrow> char \<Rightarrow> scan" where
  "stateESign lit st c = (if isDigit c then Continue (E0 (lit @ [c])) st else ScanError)"

definition stateE :: "string \<Rightarrow> frame list \<Rightarrow> char \<Rightarrow> scan" where
  "stateE lit st c =
     (if c = CHR ''+'' \<or> c = CHR ''-'' then Continue (ESign (lit @ [c])) st
      else stateESign lit st c)"

definition stateE0 :: "string \<Rightarrow> frame list \<Rightarrow> char \<Rightarrow> scan" where
  "stateE0 lit st c =
     (if isDigit c then Continue (E0 (lit @ [c])) st else endNumber lit st c)"

definition stateLiteral :: "string \<Rightarrow> json \<Rightarrow> frame list \<Rightarrow> char \<Rightarrow> scan" where
  "stateLiteral expect v st c =
     (case expect of
        [] \<Rightarrow> ScanError
      | e # es \<Rightarrow>
          if c = e then (if es = [] then valueDone v st else Continue (Literal es v) st)
          else ScanError)"

fun step :: "mode \<Rightarrow> frame list \<Rightarrow> char \<Rightarrow> scan" where
  "step BeginValue st c = stateBeginValue st c"
| "step BeginValueOrEmpty st c = stateBeginValueOrEmpty st c"
| "step BeginStringOrEmpty st c = stateBeginStringOrEmpty st c"
| "step BeginString st c = stateBeginString st c"
| "step EndValue st c = stateEndValue st c"
| "step (InString lit) st c = stateInString lit st c"
| "step (InStringEsc lit) st c = stateInStringEsc lit st c"
| "step (InStringEscU lit n) st c = stateInStringEscU lit n st c"
| "step (Neg lit) st c = stateNeg lit st c"
| "step (State0 lit) st c = state0 lit st c"
| "step (State1 lit) st c = state1 lit st c"
| "step (Dot lit) st c = stateDot lit st c"
| "step (Dot0 lit) st c = stateDot0 lit st c"
| "step (StateE lit) st c = stateE lit st c"
| "step (ESign lit) st c = stateESign lit st c"
| "step (E0 lit) st c = stateE0 lit st c"
| "step (Literal expect v) st c = stateLiteral expect v st c"

text \<open>
  The input ends while a value is awaited or being read (\<open>Decoder.readValue\<close> at
  \<open>io.EOF\<close>): a top-level number that may end here is complete; if only white space has
  been read the error is \<open>io.EOF\<close>, otherwise \<open>io.ErrUnexpectedEOF\<close>.
\<close>

definition atEOF :: "mode \<Rightarrow> frame list \<Rightarrow> json_error + json" where
  "atEOF m st =
     (case (m, st) of
        (State0 lit, []) \<Rightarrow> Inr (JNumber lit)
      | (State1 lit, []) \<Rightarrow> Inr (JNumber lit)
      | (Dot0 lit, []) \<Rightarrow> Inr (JNumber lit)
      | (E0 lit, []) \<Rightarrow> Inr (JNumber lit)
      | (BeginValue, []) \<Rightarrow> Inl EOF
      | _ \<Rightarrow> Inl ErrUnexpectedEOF)"

text \<open>
  \<open>readValue\<close> reads the first value of the body. Bytes after that value are left in
  the decoder's buffer and never looked at: the handler calls \<open>Decode\<close> once.
\<close>

fun readValue :: "mode \<Rightarrow> frame list \<Rightarrow> string \<Rightarrow> json_error + json" where
  "readValue m st [] = atEOF m st"
| "readValue m st (c # cs) =
     (case step m st c of
        Continue m' st' \<Rightarrow> readValue m' st' cs
      | EndTop v \<Rightarrow> Inr v
      | ScanError \<Rightarrow> Inl SyntaxError)"

subsection \<open>encoding/json: storing a value in AddUserRequest\<close>

text \<open>
  \<open>type AddUserRequest struct { Name string `json:"name"` }\<close>.
\<close>

record AddUserRequest =
  AddUserRequest_Name :: string

text \<open>
  A key selects the field if it is the field's JSON name or equal to it after
  \<open>foldName\<close>. \<open>foldName\<close> turns the ASCII letters to upper case and folds every other
  code point by Unicode simple case folding; the only ASCII letters a code point past
  0x7F folds to are K and S, and NAME has neither, so for this field the bytes past 0x7F
  are left as they are: a key that has one does not fold to NAME either way.
\<close>

definition toUpperASCII :: "char \<Rightarrow> char" where
  "toUpperASCII c = (if 0x61 \<le> byte c \<and> byte c \<le> 0x7A then char_of (byte c - 0x20) else c)"

definition foldName :: "string \<Rightarrow> string" where
  "foldName key = map toUpperASCII key"

definition matchesName :: "string \<Rightarrow> bool" where
  "matchesName key = (key = ''name'' \<or> foldName key = foldName ''name'')"

text \<open>\<open>decodeState.saveError\<close> keeps the first error; decoding goes on.\<close>

definition saveError :: "json_error \<Rightarrow> json_error option \<Rightarrow> json_error option" where
  "saveError err saved = (case saved of None \<Rightarrow> Some err | Some e \<Rightarrow> Some e)"

definition valueKind :: "json \<Rightarrow> string" where
  "valueKind v =
     (case v of JNull \<Rightarrow> ''null'' | JBool b \<Rightarrow> ''bool'' | JNumber n \<Rightarrow> ''number''
      | JString s \<Rightarrow> ''string'' | JArray es \<Rightarrow> ''array'' | JObject ms \<Rightarrow> ''object'')"

text \<open>
  A value for the field \<open>Name\<close>, of Go type \<open>string\<close>: a JSON string is stored, \<open>null\<close>
  leaves the field as it is, anything else is an \<open>UnmarshalTypeError\<close>.
\<close>

definition storeName ::
  "json \<Rightarrow> json_error option \<times> AddUserRequest \<Rightarrow> json_error option \<times> AddUserRequest" where
  "storeName v acc =
     (case v of
        JString s \<Rightarrow> (fst acc, (snd acc)\<lparr>AddUserRequest_Name := s\<rparr>)
      | JNull \<Rightarrow> acc
      | _ \<Rightarrow> (saveError (UnmarshalTypeError (valueKind v)) (fst acc), snd acc))"

text \<open>
  \<open>decodeState.object\<close> for the struct, with \<open>DisallowUnknownFields\<close>: the members are
  read in order; a key that selects no field is an error and its value is skipped.
\<close>

fun object ::
  "(string \<times> json) list \<Rightarrow> json_error option \<times> AddUserRequest \<Rightarrow>
   json_error option \<times> AddUserRequest" where
  "object [] acc = acc"
| "object ((key, v) # ms) acc =
     object ms
       (if matchesName key then storeName v acc
        else (saveError (UnknownField key) (fst acc), snd acc))"

text \<open>
  \<open>decodeState.unmarshal\<close> into the struct: an object is read member by member, \<open>null\<close>
  changes nothing, any other value is an \<open>UnmarshalTypeError\<close>.
\<close>

definition unmarshal :: "json \<Rightarrow> AddUserRequest \<Rightarrow> json_error option \<times> AddUserRequest" where
  "unmarshal v req =
     (case v of
        JObject ms \<Rightarrow> object ms (None, req)
      | JNull \<Rightarrow> (None, req)
      | _ \<Rightarrow> (Some (UnmarshalTypeError (valueKind v)), req))"

text \<open>
  \<open>decoder.Decode(&req)\<close> after \<open>decoder.DisallowUnknownFields()\<close>: the error (\<open>None\<close> is
  \<open>nil\<close>) and the variable as the call leaves it.
\<close>

definition Decode :: "string \<Rightarrow> AddUserRequest \<Rightarrow> json_error option \<times> AddUserRequest" where
  "Decode body req =
     (case readValue BeginValue [] body of
        Inl err \<Rightarrow> (Some err, req)
      | Inr v \<Rightarrow> unmarshal v req)"

section \<open>net/http: the response writer\<close>

text \<open>
  What a handler does to its \<open>http.ResponseWriter\<close>: the header map (one value per
  key suffices here), the status code once \<open>WriteHeader\<close> has been called, and the bytes
  written.
\<close>

record ResponseWriter =
  header :: "(string \<times> string) list"
  status :: "nat option"
  written :: string

definition newResponseWriter :: ResponseWriter where
  "newResponseWriter = \<lparr>header = [], status = None, written = []\<rparr>"

fun assign :: "string \<Rightarrow> string \<Rightarrow> (string \<times> string) list \<Rightarrow> (string \<times> string) list" where
  "assign k v [] = [(k, v)]"
| "assign k v ((k', v') # h) = (if k = k' then (k, v) # h else (k', v') # assign k v h)"

definition Header_Set :: "string \<Rightarrow> string \<Rightarrow> ResponseWriter \<Rightarrow> ResponseWriter" where
  "Header_Set k v w = w\<lparr>header := assign k v (header w)\<rparr>"

definition Header_Del :: "string \<Rightarrow> ResponseWriter \<Rightarrow> ResponseWriter" where
  "Header_Del k w = w\<lparr>header := filter (\<lambda>kv. fst kv \<noteq> k) (header w)\<rparr>"

text \<open>Only the first \<open>WriteHeader\<close> counts; a later call is ignored.\<close>

definition WriteHeader :: "nat \<Rightarrow> ResponseWriter \<Rightarrow> ResponseWriter" where
  "WriteHeader code w = (case status w of None \<Rightarrow> w\<lparr>status := Some code\<rparr> | Some c \<Rightarrow> w)"

definition StatusOK :: nat where "StatusOK = 200"
definition StatusCreated :: nat where "StatusCreated = 201"
definition StatusBadRequest :: nat where "StatusBadRequest = 400"
definition StatusNotFound :: nat where "StatusNotFound = 404"
definition StatusInternalServerError :: nat where "StatusInternalServerError = 500"
definition StatusBadGateway :: nat where "StatusBadGateway = 502"

text \<open>\<open>Write\<close> sends the header with \<open>StatusOK\<close> first if none has been sent.\<close>

definition Write :: "string \<Rightarrow> ResponseWriter \<Rightarrow> ResponseWriter" where
  "Write p w = (let w = WriteHeader StatusOK w in w\<lparr>written := written w @ p\<rparr>)"

text \<open>
  \<open>http.Error\<close>: the content type becomes plain text, whatever it was, and the message
  is written with \<open>fmt.Fprintln\<close>, that is, followed by a line feed.
\<close>

definition Error :: "ResponseWriter \<Rightarrow> string \<Rightarrow> nat \<Rightarrow> ResponseWriter" where
  "Error w error code =
     (let w = Header_Del ''Content-Length'' w;
          w = Header_Set ''Content-Type'' ''text/plain; charset=utf-8'' w;
          w = Header_Set ''X-Content-Type-Options'' ''nosniff'' w;
          w = WriteHeader code w
      in Write (error @ [CHR 0x0A]) w)"

text \<open>
  \<open>Encoder.Encode\<close> writes the JSON text of its argument and a line feed in one
  \<open>Write\<close>. None of the values encoded here can fail to marshal.
\<close>

definition Encode :: "string \<Rightarrow> ResponseWriter \<Rightarrow> ResponseWriter" where
  "Encode marshalled w = Write (marshalled @ [CHR 0x0A]) w"

text \<open>
  The response the client receives once the handler has returned: a handler that never
  called \<open>WriteHeader\<close> or \<open>Write\<close> is answered with \<open>200 OK\<close> and no body.
  \<open>resp_header\<close> holds the headers the handler has set; those the server adds by
  itself (\<open>Date\<close>, \<open>Content-Length\<close>) are left out.
\<close>

record Response =
  resp_status :: nat
  resp_header :: "(string \<times> string) list"
  resp_body :: string

definition finishRequest :: "ResponseWriter \<Rightarrow> Response" where
  "finishRequest w =
     \<lparr>resp_status = (case status w of None \<Rightarrow> StatusOK | Some c \<Rightarrow> c),
      resp_header = header w, resp_body = written w\<rparr>"

section \<open>context and time\<close>

text \<open>
  A context is the background context, one derived from a parent with a timeout (in
  nanoseconds, as \<open>time.Duration\<close>), or one derived with a cancel function (the flag says
  whether it has been cancelled). The context of an incoming request is of the last kind.
\<close>

datatype Context = Background | WithTimeout Context int | WithCancel Context bool

definition Millisecond :: int where "Millisecond = 1000000"
definition dbConnectionTimeout :: int where "dbConnectionTimeout = 100 * Millisecond"
definition dbPingTimeout :: int where "dbPingTimeout = 10 * Millisecond"

section \<open>The database\<close>

text \<open>\<open>type User struct { ID int `json:"id"`; Name string `json:"name"` }\<close>\<close>

record User =
  User_ID :: int
  User_Name :: string

text \<open>
  What the pool is asked to do, in the order of the calls: \<open>Ping(ctx)\<close>,
  \<open>Query(ctx, sql)\<close> and \<open>QueryRow(ctx, sql, arg)\<close>.
\<close>

datatype call =
    PingCall Context
  | QueryCall Context string
  | QueryRowCall Context string string

text \<open>
  The state of the database as the program can change or observe it: the rows of the
  table \<open>users (id SERIAL PRIMARY KEY, name TEXT NOT NULL)\<close> in the order of their
  insertion, the next value of the sequence behind \<open>id\<close>, and the calls received.
\<close>

record database =
  table_users :: "User list"
  users_id_seq :: int
  calls :: "call list"

text \<open>
  \<open>CREATE TABLE IF NOT EXISTS users (...)\<close> in \<open>initDB\<close>: a table that exists is left as
  it is; otherwise the table is created empty and its sequence starts at 1. \<open>None\<close> is a
  database without the table.
\<close>

definition CREATE_TABLE_IF_NOT_EXISTS_users :: "database option \<Rightarrow> database" where
  "CREATE_TABLE_IF_NOT_EXISTS_users d =
     (case d of
        None \<Rightarrow> \<lparr>table_users = [], users_id_seq = 1, calls = []\<rparr>
      | Some d \<Rightarrow> d)"

text \<open>
  \<open>INSERT INTO users (name) VALUES ($1) RETURNING id\<close> when it reaches the server: the
  sequence gives the id and moves on; the row is added unless the primary key refuses
  the id, and the id is returned.
\<close>

definition INSERT_INTO_users :: "string \<Rightarrow> database \<Rightarrow> (string + int) \<times> database" where
  "INSERT_INTO_users name d =
     (let next = users_id_seq d;
          d = d\<lparr>users_id_seq := next + 1\<rparr>
      in if next \<in> User_ID ` set (table_users d)
         then (Inl ''ERROR: duplicate key value violates unique constraint (SQLSTATE 23505)'', d)
         else (Inr next, d\<lparr>table_users := table_users d @ [\<lparr>User_ID = next, User_Name = name\<rparr>]\<rparr>))"

text \<open>
  The pool (\<open>*pgxpool.Pool\<close>) and the server behind it are not part of the program.
  What they answer to a call is a parameter of the model, and may depend on the context
  and the statement of the call:
  \<^item> \<open>Ping\<close>: \<open>nil\<close> or an error, given by its text;
  \<^item> \<open>Query\<close>: an error, or the rows that \<open>rows.Next()\<close> yields before it returns
    false, each with what \<open>rows.Scan(&id, &name)\<close> does on it: an error or the two
    values. \<open>rows.Next()\<close> returns false at the end of the result, and also when the
    query fails while its rows are read; the error is then kept for \<open>rows.Err()\<close>. The
    handler never calls \<open>rows.Err()\<close>, so all it sees of such a query is a list of rows
    that stops early: that list is the value of \<open>Query\<close> for it;
  \<^item> \<open>QueryRow\<close>: an error that keeps the statement from being executed (no connection,
    a cancelled context, ...), or \<open>None\<close>: the statement runs on the database.
\<close>

record Pool =
  Ping :: "Context \<Rightarrow> string option"
  Query :: "Context \<Rightarrow> string \<Rightarrow> string + (string + int \<times> string) list"
  QueryRow :: "Context \<Rightarrow> string \<Rightarrow> string \<Rightarrow> string option"

definition pool_Ping :: "Pool \<Rightarrow> Context \<Rightarrow> database \<Rightarrow> string option \<times> database" where
  "pool_Ping p ctx d = (Ping p ctx, d\<lparr>calls := calls d @ [PingCall ctx]\<rparr>)"

definition pool_Query ::
  "Pool \<Rightarrow> Context \<Rightarrow> string \<Rightarrow> database \<Rightarrow>
   (string + (string + int \<times> string) list) \<times> database" where
  "pool_Query p ctx sql d = (Query p ctx sql, d\<lparr>calls := calls d @ [QueryCall ctx sql]\<rparr>)"

text \<open>\<open>QueryRow(ctx, sql, arg).Scan(&newUserID)\<close>: the error, or the id returned.\<close>

definition pool_QueryRow_Scan ::
  "Pool \<Rightarrow> Context \<Rightarrow> string \<Rightarrow> string \<Rightarrow> database \<Rightarrow> (string + int) \<times> database" where
  "pool_QueryRow_Scan p ctx sql arg d =
     (let d = d\<lparr>calls := calls d @ [QueryRowCall ctx sql arg]\<rparr>
      in case QueryRow p ctx sql arg of
           Some err \<Rightarrow> (Inl err, d)
         | None \<Rightarrow> INSERT_INTO_users arg d)"

section \<open>The handlers (app.go)\<close>

record Request =
  Method :: string
  URL_Path :: string
  Body :: string
  Context :: Context

record App =
  db :: Pool

text \<open>
  \<open>type GetUsersResponse struct { Users []User `json:"users"` }\<close>. A Go slice is
  \<open>nil\<close> (\<open>None\<close>) or holds elements, possibly none; the encoder writes \<open>null\<close> for the
  first and an array for the second.
\<close>

record GetUsersResponse =
  GetUsersResponse_Users :: "User list option"

text \<open>\<open>type UserResponse struct { ID int `json:"id"`; Name string `json:"name"` }\<close>\<close>

record UserResponse =
  UserResponse_ID :: int
  UserResponse_Name :: string

definition SELECT_users :: string where
  "SELECT_users = ''SELECT * FROM users;''"

definition INSERT_users :: string where
  "INSERT_users = ''INSERT INTO users (name) VALUES ($1) RETURNING id''"

subsection \<open>json.Marshal of the three response types\<close>

fun joinComma :: "string list \<Rightarrow> string" where
  "joinComma [] = []"
| "joinComma [x] = x"
| "joinComma (x # y # ys) = x @ '','' @ joinComma (y # ys)"

definition marshal_User :: "User \<Rightarrow> string" where
  \<open>marshal_User u =
     ''{"id":'' @ Itoa (User_ID u) @ '',"name":'' @ appendString (User_Name u) @ ''}''\<close>

definition marshal_slice :: "User list option \<Rightarrow> string" where
  "marshal_slice us =
     (case us of
        None \<Rightarrow> ''null''
      | Some us \<Rightarrow> ''['' @ joinComma (map marshal_User us) @ '']'')"

definition marshal_GetUsersResponse :: "GetUsersResponse \<Rightarrow> string" where
  \<open>marshal_GetUsersResponse v = ''{"users":'' @ marshal_slice (GetUsersResponse_Users v) @ ''}''\<close>

definition marshal_UserResponse :: "UserResponse \<Rightarrow> string" where
  \<open>marshal_UserResponse v =
     ''{"id":'' @ Itoa (UserResponse_ID v) @ '',"name":'' @
     appendString (UserResponse_Name v) @ ''}''\<close>

subsection \<open>handleGetUsers\<close>

text \<open>
  The loop \<open>for rows.Next() { ... rows.Scan(&id, &name) ... users = append(users, ...) }\<close>
  over the rows the query yields: it stops with the error of the first \<open>Scan\<close> that
  fails, and otherwise returns the slice. \<open>rows.Err()\<close> is not consulted.
\<close>

fun rowsLoop ::
  "(string + int \<times> string) list \<Rightarrow> User list option \<Rightarrow> string + User list option" where
  "rowsLoop [] users = Inr users"
| "rowsLoop (Inl err # rows) users = Inl err"
| "rowsLoop (Inr (uid, name) # rows) users =
     rowsLoop rows
       (Some ((case users of None \<Rightarrow> [] | Some us \<Rightarrow> us) @ [\<lparr>User_ID = uid, User_Name = name\<rparr>]))"

definition handleGetUsers ::
  "App \<Rightarrow> ResponseWriter \<Rightarrow> Request \<Rightarrow> database \<Rightarrow> ResponseWriter \<times> database" where
  "handleGetUsers app w r d =
     (let w = Header_Set ''Content-Type'' ''application/json'' w;
          (res, d) = pool_Query (db app) (Context r) SELECT_users d
      in case res of
           Inl err \<Rightarrow> (Error w err StatusInternalServerError, d)
         | Inr rows \<Rightarrow>
             (case rowsLoop rows (Some []) of
                Inl err \<Rightarrow> (Error w err StatusInternalServerError, d)
              | Inr users \<Rightarrow>
                  (Encode (marshal_GetUsersResponse \<lparr>GetUsersResponse_Users = users\<rparr>) w, d)))"

subsection \<open>handleAddUser\<close>

text \<open>\<open>var req AddUserRequest\<close>: the zero value.\<close>

definition zeroRequest :: AddUserRequest where
  "zeroRequest = \<lparr>AddUserRequest_Name = []\<rparr>"

definition handleAddUser ::
  "App \<Rightarrow> ResponseWriter \<Rightarrow> Request \<Rightarrow> database \<Rightarrow> ResponseWriter \<times> database" where
  \<open>handleAddUser app w r d =
     (let w = Header_Set ''Content-Type'' ''application/json'' w;
          (err, req) = Decode (Body r) zeroRequest
      in if err \<noteq> None then
           (Error w ''{"error": "Invalid request payload"}'' StatusBadRequest, d)
         else if AddUserRequest_Name req = [] then
           (Error w ''{"error": "Name is required"}'' StatusBadRequest, d)
         else
           (case pool_QueryRow_Scan (db app) (Context r) INSERT_users (AddUserRequest_Name req) d of
              (Inl err, d) \<Rightarrow>
                (Error w ''{"error": "Failed to add user to database"}''
                   StatusInternalServerError, d)
            | (Inr newUserID, d) \<Rightarrow>
                (let w = WriteHeader StatusCreated w;
                     response = \<lparr>UserResponse_ID = newUserID,
                                 UserResponse_Name = AddUserRequest_Name req\<rparr>
                 in (Encode (marshal_UserResponse response) w, d))))\<close>

subsection \<open>handleHealthCheck\<close>

definition handleHealthCheck ::
  "App \<Rightarrow> ResponseWriter \<Rightarrow> Request \<Rightarrow> database \<Rightarrow> ResponseWriter \<times> database" where
  "handleHealthCheck app w r d =
     (let ctx = WithTimeout Background dbPingTimeout;
          (err, d) = pool_Ping (db app) ctx d
      in if err \<noteq> None then (WriteHeader StatusBadGateway w, d) else (w, d))"

subsection \<open>main: the two routes\<close>

text \<open>The function registered for \<open>/api/users\<close>: a switch on the method with no default.\<close>

definition apiUsers ::
  "App \<Rightarrow> ResponseWriter \<Rightarrow> Request \<Rightarrow> database \<Rightarrow> ResponseWriter \<times> database" where
  "apiUsers app w r d =
     (if Method r = ''GET'' then handleGetUsers app w r d
      else if Method r = ''POST'' then handleAddUser app w r d
      else (w, d))"

text \<open>
  One request through the default \<open>ServeMux\<close> with the two patterns of \<open>main\<close>. Both
  patterns name one path each and no method, so each matches that path exactly and
  every method; the mux answers any other path with \<open>http.NotFound\<close>. (A path with
  repeated slashes or dot segments is redirected by the mux to its clean form before any
  handler is chosen; \<open>URL_Path\<close> is the path of a request that needs no such redirect.)
  The handlers write to a log as well; the log is not part of any response and is left
  out.
\<close>

definition ServeHTTP :: "App \<Rightarrow> Request \<Rightarrow> database \<Rightarrow> Response \<times> database" where
  "ServeHTTP app r d =
     (let (w, d) =
            (if URL_Path r = ''/api/users'' then apiUsers app newResponseWriter r d
             else if URL_Path r = ''/_internal/health'' then
               handleHealthCheck app newResponseWriter r d
             else (Error newResponseWriter ''404 page not found'' StatusNotFound, d))
      in (finishRequest w, d))"

text \<open>The database after a sequence of requests, each with the pool's behaviour at its time.\<close>

fun serveAll :: "(App \<times> Request) list \<Rightarrow> database \<Rightarrow> database" where
  "serveAll [] d = d"
| "serveAll ((app, r) # rs) d = serveAll rs (snd (ServeHTTP app r d))"

section \<open>Requests, observations and example data for the properties\<close>

text \<open>The three kinds of request the properties speak of, with any body and any context.\<close>

definition POST_users :: "string \<Rightarrow> Context \<Rightarrow> Request" where
  "POST_users body ctx =
     \<lparr>Method = ''POST'', URL_Path = ''/api/users'', Body = body, Context = ctx\<rparr>"

definition GET_users :: "string \<Rightarrow> Context \<Rightarrow> Request" where
  "GET_users body ctx =
     \<lparr>Method = ''GET'', URL_Path = ''/api/users'', Body = body, Context = ctx\<rparr>"

definition GET_health :: "string \<Rightarrow> Context \<Rightarrow> Request" where
  "GET_health body ctx =
     \<lparr>Method = ''GET'', URL_Path = ''/_internal/health'', Body = body, Context = ctx\<rparr>"

text \<open>The status and the body of the response to a request, and the database afterwards.\<close>

definition outcome :: "App \<Rightarrow> Request \<Rightarrow> database \<Rightarrow> nat \<times> string \<times> database" where
  "outcome app r d =
     (resp_status (fst (ServeHTTP app r d)), resp_body (fst (ServeHTTP app r d)),
      snd (ServeHTTP app r d))"

text \<open>The response \<open>http.Error\<close> leaves: plain text, the message and a line feed.\<close>

definition plainReply :: "nat \<Rightarrow> string \<Rightarrow> Response" where
  "plainReply code text =
     \<lparr>resp_status = code,
      resp_header = [(''Content-Type'', ''text/plain; charset=utf-8''),
                     (''X-Content-Type-Options'', ''nosniff'')],
      resp_body = text @ ''\<newline>''\<rparr>"

text \<open>
  The rows of a query that succeeds on a table: every row, in order, each scanned without
  error.
\<close>

definition delivered :: "User list \<Rightarrow> (string + int \<times> string) list" where
  "delivered us = map (\<lambda>u. Inr (User_ID u, User_Name u)) us"

text \<open>
  The same pool with the text of every error replaced by the empty text: it fails exactly
  where the pool fails. A response that is the same for a pool and its blanked pool
  shows nothing of the error texts.
\<close>

definition blank :: "Pool \<Rightarrow> Pool" where
  "blank p =
     \<lparr>Ping = (\<lambda>ctx. map_option (\<lambda>e. []) (Ping p ctx)),
      Query = (\<lambda>ctx sql.
                 case Query p ctx sql of
                   Inl e \<Rightarrow> Inl []
                 | Inr rows \<Rightarrow>
                     Inr (map (\<lambda>row. case row of Inl e \<Rightarrow> Inl [] | Inr v \<Rightarrow> Inr v) rows)),
      QueryRow = (\<lambda>ctx sql arg. map_option (\<lambda>e. []) (QueryRow p ctx sql arg))\<rparr>"

text \<open>
  A printable ASCII character other than the quote and the backslash: inside a JSON
  string it stands for itself.
\<close>

definition plainChar :: "char \<Rightarrow> bool" where
  "plainChar c = (0x20 \<le> byte c \<and> byte c < 0x80 \<and> c \<noteq> CHR 0x22 \<and> c \<noteq> CHR 0x5C)"

text \<open>
  The invariant of the table: no row has an empty name, and no two rows have the same id.
  (An id is an \<open>int\<close>, a name a \<open>string\<close>: neither can be \<open>NULL\<close>.)
\<close>

definition noName :: "User \<Rightarrow> bool" where
  "noName u = (User_Name u = [])"

definition wellFormed :: "database \<Rightarrow> bool" where
  "wellFormed d =
     (\<not> list_ex noName (table_users d) \<and> distinct (map User_ID (table_users d)))"

text \<open>
  The calls the program makes: a ping, the one \<open>SELECT\<close>, and the one \<open>INSERT\<close> with a
  name that is not empty.
\<close>

definition allowedCall :: "call \<Rightarrow> bool" where
  "allowedCall c =
     (case c of
        PingCall ctx \<Rightarrow> True
      | QueryCall ctx sql \<Rightarrow> sql = SELECT_users
      | QueryRowCall ctx sql arg \<Rightarrow> sql = INSERT_users \<and> arg \<noteq> [])"

text \<open>
  What one request may do to the database: add at most one row at the end of the table,
  with a name and a new id, and make allowed calls.
\<close>

definition effect :: "database \<Rightarrow> database \<Rightarrow> bool" where
  "effect d d' =
     (\<exists>new cs.
        table_users d' = table_users d @ new \<and>
        length new \<le> 1 \<and> \<not> list_ex noName new \<and>
        (\<forall>u \<in> set new. User_ID u \<notin> User_ID ` set (table_users d)) \<and>
        calls d' = calls d @ cs \<and> list_all allowedCall cs)"

text \<open>
  Example data: a pool whose server answers every call, a pool that fails every call
  with a given text, a pool whose query breaks after the first row, two users, and the
  context of an incoming request.
\<close>

definition healthy :: "User list \<Rightarrow> App" where
  "healthy us =
     \<lparr>db = \<lparr>Ping = (\<lambda>ctx. None), Query = (\<lambda>ctx sql. Inr (delivered us)),
             QueryRow = (\<lambda>ctx sql arg. None)\<rparr>\<rparr>"

definition unreachable :: "string \<Rightarrow> App" where
  "unreachable e =
     \<lparr>db = \<lparr>Ping = (\<lambda>ctx. Some e), Query = (\<lambda>ctx sql. Inl e),
             QueryRow = (\<lambda>ctx sql arg. Some e)\<rparr>\<rparr>"

definition Ann :: User where "Ann = \<lparr>User_ID = 1, User_Name = ''Ann''\<rparr>"
definition Bob :: User where "Bob = \<lparr>User_ID = 2, User_Name = ''Bob''\<rparr>"

definition twoUsers :: database where
  "twoUsers = \<lparr>table_users = [Ann, Bob], users_id_seq = 3, calls = []\<rparr>"

definition noUsers :: database where
  "noUsers = CREATE_TABLE_IF_NOT_EXISTS_users None"

definition incoming :: Context where
  "incoming = WithCancel Background False"

definition exampleUp :: App where
  "exampleUp = healthy [Ann, Bob]"

definition exampleDown :: App where
  "exampleDown = unreachable ''connection refused''"

definition exampleCut :: App where
  "exampleCut = healthy [Ann]"

section \<open>Lemmas about the handlers\<close>

lemmas http_defs = Header_Set_def Header_Del_def Error_def Write_def WriteHeader_def Encode_def
  finishRequest_def newResponseWriter_def StatusOK_def StatusCreated_def StatusBadRequest_def
  StatusNotFound_def StatusInternalServerError_def StatusBadGateway_def

subsection \<open>POST /api/users\<close>

lemma POST_outcome:
  \<open>outcome app (POST_users body ctx) d =
     (let (err, req) = Decode body zeroRequest
      in if err \<noteq> None then (400, ''{"error": "Invalid request payload"}\<newline>'', d)
         else if AddUserRequest_Name req = [] then
           (400, ''{"error": "Name is required"}\<newline>'', d)
         else
           (case pool_QueryRow_Scan (db app) ctx INSERT_users (AddUserRequest_Name req) d of
              (Inl e, d') \<Rightarrow> (500, ''{"error": "Failed to add user to database"}\<newline>'', d')
            | (Inr newUserID, d') \<Rightarrow>
                (201, ''{"id":'' @ Itoa newUserID @ '',"name":'' @
                      appendString (AddUserRequest_Name req) @ ''}\<newline>'', d')))\<close>
  by (simp add: outcome_def ServeHTTP_def POST_users_def apiUsers_def handleAddUser_def http_defs
      marshal_UserResponse_def Let_def split: prod.splits sum.splits)

lemma POST_decoded:
  assumes "Decode body zeroRequest = (None, req)" "AddUserRequest_Name req \<noteq> []"
  shows \<open>outcome app (POST_users body ctx) d =
     (case pool_QueryRow_Scan (db app) ctx INSERT_users (AddUserRequest_Name req) d of
        (Inl e, d') \<Rightarrow> (500, ''{"error": "Failed to add user to database"}\<newline>'', d')
      | (Inr newUserID, d') \<Rightarrow>
          (201, ''{"id":'' @ Itoa newUserID @ '',"name":'' @
                appendString (AddUserRequest_Name req) @ ''}\<newline>'', d'))\<close>
  using assms by (simp add: POST_outcome)

lemma insert_succeeds:
  assumes "pool_QueryRow_Scan p ctx sql name d = (Inr newID, d')"
  shows "newID = users_id_seq d \<and> newID \<notin> User_ID ` set (table_users d) \<and>
         table_users d' = table_users d @ [\<lparr>User_ID = newID, User_Name = name\<rparr>] \<and>
         users_id_seq d' = users_id_seq d + 1 \<and>
         calls d' = calls d @ [QueryRowCall ctx sql name]"
  using assms
  by (auto simp: pool_QueryRow_Scan_def INSERT_INTO_users_def Let_def
      split: option.splits if_splits)

lemma insert_fails:
  assumes "pool_QueryRow_Scan p ctx sql name d = (Inl e, d')"
  shows "table_users d' = table_users d \<and> calls d' = calls d @ [QueryRowCall ctx sql name]"
  using assms
  by (auto simp: pool_QueryRow_Scan_def INSERT_INTO_users_def Let_def
      split: option.splits if_splits)

lemma example_insert:
  \<open>pool_QueryRow_Scan (db exampleUp) incoming INSERT_users name twoUsers =
     (Inr 3, \<lparr>table_users = [Ann, Bob, \<lparr>User_ID = 3, User_Name = name\<rparr>], users_id_seq = 4,
              calls = [QueryRowCall incoming INSERT_users name]\<rparr>)\<close>
  by (simp add: pool_QueryRow_Scan_def exampleUp_def healthy_def INSERT_INTO_users_def
      twoUsers_def Ann_def Bob_def)

subsection \<open>The decoder\<close>

lemma Decode_empty: "Decode [] req = (Some EOF, req)"
  by (simp add: Decode_def atEOF_def)

lemma Decode_malformed:
  "readValue BeginValue [] body = Inl e \<Longrightarrow> fst (Decode body req) = Some e"
  by (simp add: Decode_def)

lemma object_keeps_error: "fst acc \<noteq> None \<Longrightarrow> fst (object ms acc) \<noteq> None"
  by (induction ms arbitrary: acc)
     (auto simp: storeName_def saveError_def split: json.splits option.splits)

lemma object_unknown_field:
  "(k, v) \<in> set ms \<Longrightarrow> \<not> matchesName k \<Longrightarrow> fst (object ms acc) \<noteq> None"
proof (induction ms arbitrary: acc)
  case Nil
  then show ?case by simp
next
  case (Cons m ms)
  show ?case
  proof (cases "(k, v) = m")
    case True
    with Cons.prems
    have "object (m # ms) acc = object ms (saveError (UnknownField k) (fst acc), snd acc)"
      by auto
    moreover have "fst (saveError (UnknownField k) (fst acc), snd acc) \<noteq> None"
      by (simp add: saveError_def split: option.splits)
    ultimately show ?thesis
      using object_keeps_error by metis
  next
    case False
    with Cons.prems have "(k, v) \<in> set ms"
      by simp
    with Cons.IH Cons.prems show ?thesis
      by (cases m) simp
  qed
qed

lemma Decode_unknown_field:
  assumes "readValue BeginValue [] body = Inr (JObject ms)" "(k, v) \<in> set ms" "\<not> matchesName k"
  shows "fst (Decode body req) \<noteq> None"
  using assms object_unknown_field [of k v ms "(None, req)"]
  by (simp add: Decode_def unmarshal_def)

lemma readValue_InString_plain:
  "list_all plainChar p \<Longrightarrow>
   readValue (InString lit) st (p @ rest) = readValue (InString (lit @ p)) st rest"
  by (induction p arbitrary: lit) (simp_all add: stateInString_def plainChar_def)

lemma unquoteChars_plain: "list_all plainChar p \<Longrightarrow> unquoteChars p = Some p"
  by (induction p) (simp_all add: plainChar_def)

lemma readValue_one_member:
  assumes "list_all plainChar key" "list_all plainChar v"
  shows \<open>readValue BeginValue [] (''{"'' @ key @ ''":"'' @ v @ ''"}'' @ rest) =
         Inr (JObject [(key, JString v)])\<close>
proof -
  have 1: \<open>readValue BeginValue [] (''{"'' @ key @ ''":"'' @ v @ ''"}'' @ rest) =
           readValue (InString []) [ObjectKey [] None] (key @ ''":"'' @ v @ ''"}'' @ rest)\<close>
    by (simp add: stateBeginValue_def isSpace_def pushParseState_def maxNestingDepth_def
        stateBeginStringOrEmpty_def stateBeginString_def)
  have 2: \<open>readValue (InString []) [ObjectKey [] None] (key @ ''":"'' @ v @ ''"}'' @ rest) =
           readValue (InString key) [ObjectKey [] None] (''":"'' @ v @ ''"}'' @ rest)\<close>
    using readValue_InString_plain [OF assms(1), of "[]"] by simp
  have 3: \<open>readValue (InString key) [ObjectKey [] None] (''":"'' @ v @ ''"}'' @ rest) =
           readValue (InString []) [ObjectValue [] (Some key)] (v @ ''"}'' @ rest)\<close>
    by (simp add: stateInString_def unquoteChars_plain [OF assms(1)] valueDone_def
        stateEndValue_def isSpace_def stateBeginValue_def)
  have 4: \<open>readValue (InString []) [ObjectValue [] (Some key)] (v @ ''"}'' @ rest) =
           readValue (InString v) [ObjectValue [] (Some key)] (''"}'' @ rest)\<close>
    using readValue_InString_plain [OF assms(2), of "[]"] by simp
  have 5: \<open>readValue (InString v) [ObjectValue [] (Some key)] (''"}'' @ rest) =
           Inr (JObject [(key, JString v)])\<close>
    by (simp add: stateInString_def unquoteChars_plain [OF assms(2)] valueDone_def
        stateEndValue_def isSpace_def)
  from 1 2 3 4 5 show ?thesis by simp
qed

lemma Decode_one_member:
  assumes "list_all plainChar key" "list_all plainChar v" "foldName key = foldName ''name''"
  shows \<open>Decode (''{"'' @ key @ ''":"'' @ v @ ''"}'') zeroRequest =
         (None, \<lparr>AddUserRequest_Name = v\<rparr>)\<close>
  using readValue_one_member [OF assms(1,2), of "[]"] assms(3)
  by (simp add: Decode_def unmarshal_def matchesName_def storeName_def zeroRequest_def)

lemma Decode_Alice:
  \<open>Decode ''{"name":"Alice"}'' zeroRequest = (None, \<lparr>AddUserRequest_Name = ''Alice''\<rparr>)\<close>
  by code_simp

lemma Decode_empty_name: \<open>Decode ''{"name":""}'' zeroRequest = (None, zeroRequest)\<close>
  by code_simp

lemma marshal_examples:
  \<open>Itoa 1 = ''1''\<close> \<open>Itoa 2 = ''2''\<close> \<open>Itoa 3 = ''3''\<close> \<open>appendString ''Alice'' = ''"Alice"''\<close>
  \<open>appendString ''Ann'' = ''"Ann"''\<close> \<open>appendString ''Bob'' = ''"Bob"''\<close>
  \<open>appendString ''Bob Ross'' = ''"Bob Ross"''\<close>
  by code_simp+

subsection \<open>GET /api/users\<close>

lemma GET_response:
  \<open>fst (ServeHTTP app (GET_users body ctx) d) =
     (case Query (db app) ctx SELECT_users of
        Inl e \<Rightarrow> plainReply 500 e
      | Inr rows \<Rightarrow>
          (case rowsLoop rows (Some []) of
             Inl e \<Rightarrow> plainReply 500 e
           | Inr users \<Rightarrow>
               \<lparr>resp_status = 200, resp_header = [(''Content-Type'', ''application/json'')],
                resp_body = ''{"users":'' @ marshal_slice users @ ''}\<newline>''\<rparr>))\<close>
  by (simp add: ServeHTTP_def GET_users_def apiUsers_def handleGetUsers_def plainReply_def
      pool_Query_def http_defs marshal_GetUsersResponse_def Let_def split: prod.splits sum.splits)

lemma GET_outcome:
  \<open>outcome app (GET_users body ctx) d =
     (case Query (db app) ctx SELECT_users of
        Inl e \<Rightarrow> (500, e @ ''\<newline>'', d\<lparr>calls := calls d @ [QueryCall ctx SELECT_users]\<rparr>)
      | Inr rows \<Rightarrow>
          (case rowsLoop rows (Some []) of
             Inl e \<Rightarrow> (500, e @ ''\<newline>'', d\<lparr>calls := calls d @ [QueryCall ctx SELECT_users]\<rparr>)
           | Inr users \<Rightarrow>
               (200, ''{"users":'' @ marshal_slice users @ ''}\<newline>'',
                d\<lparr>calls := calls d @ [QueryCall ctx SELECT_users]\<rparr>)))\<close>
  by (simp add: outcome_def ServeHTTP_def GET_users_def apiUsers_def handleGetUsers_def
      pool_Query_def http_defs marshal_GetUsersResponse_def Let_def split: prod.splits sum.splits)

lemma rowsLoop_delivered: "rowsLoop (delivered us) (Some acc) = Inr (Some (acc @ us))"
  by (induction us arbitrary: acc) (simp_all add: delivered_def)

lemma rowsLoop_scan_error: "rowsLoop (delivered us @ Inl e # rest) (Some acc) = Inl e"
  by (induction us arbitrary: acc) (simp_all add: delivered_def)

lemma rowsLoop_not_nil: "rowsLoop rows (Some acc) = Inr users \<Longrightarrow> users \<noteq> None"
  by (induction rows "Some acc" arbitrary: acc rule: rowsLoop.induct) auto

subsection \<open>Responses that do not depend on the error texts\<close>

lemma blank_response:
  assumes "\<not> (URL_Path r = ''/api/users'' \<and> Method r = ''GET'')"
  shows "fst (ServeHTTP (app\<lparr>db := blank (db app)\<rparr>) r d) = fst (ServeHTTP app r d)"
proof -
  have post: "fst (handleAddUser (app\<lparr>db := blank (db app)\<rparr>) w r d) =
              fst (handleAddUser app w r d)" for w
    by (simp add: handleAddUser_def pool_QueryRow_Scan_def blank_def Let_def
        split: prod.splits option.splits sum.splits)
  have health: "fst (handleHealthCheck (app\<lparr>db := blank (db app)\<rparr>) w r d) =
                fst (handleHealthCheck app w r d)" for w
    by (simp add: handleHealthCheck_def pool_Ping_def blank_def Let_def)
  show ?thesis
    using assms post [of newResponseWriter] health [of newResponseWriter]
    by (simp add: ServeHTTP_def apiUsers_def split_def Let_def)
qed

subsection \<open>What a request does to the database\<close>

lemma ServeHTTP_database:
  "snd (ServeHTTP app r d) =
     (if URL_Path r = ''/api/users'' then
        (if Method r = ''GET'' then d\<lparr>calls := calls d @ [QueryCall (Context r) SELECT_users]\<rparr>
         else if Method r = ''POST'' then snd (handleAddUser app newResponseWriter r d)
         else d)
      else if URL_Path r = ''/_internal/health'' then
        d\<lparr>calls := calls d @ [PingCall (WithTimeout Background dbPingTimeout)]\<rparr>
      else d)"
  by (simp add: ServeHTTP_def apiUsers_def handleGetUsers_def handleHealthCheck_def pool_Query_def
      pool_Ping_def split_def Let_def split: sum.splits)

lemma handleAddUser_database:
  "snd (handleAddUser app w r d) = d \<or>
   (\<exists>name. name \<noteq> [] \<and>
      (snd (handleAddUser app w r d) =
         d\<lparr>calls := calls d @ [QueryRowCall (Context r) INSERT_users name]\<rparr> \<or>
       snd (handleAddUser app w r d) =
         d\<lparr>calls := calls d @ [QueryRowCall (Context r) INSERT_users name],
           users_id_seq := users_id_seq d + 1\<rparr> \<or>
       users_id_seq d \<notin> User_ID ` set (table_users d) \<and>
       snd (handleAddUser app w r d) =
         d\<lparr>calls := calls d @ [QueryRowCall (Context r) INSERT_users name],
           users_id_seq := users_id_seq d + 1,
           table_users := table_users d @ [\<lparr>User_ID = users_id_seq d, User_Name = name\<rparr>]\<rparr>))"
proof (cases "Decode (Body r) zeroRequest")
  case (Pair err req)
  show ?thesis
  proof (cases "err = None \<and> AddUserRequest_Name req \<noteq> []")
    case False
    with Pair have "snd (handleAddUser app w r d) = d"
      by (auto simp: handleAddUser_def Let_def)
    then show ?thesis by simp
  next
    case True
    with Pair have eq: "snd (handleAddUser app w r d) =
        snd (pool_QueryRow_Scan (db app) (Context r) INSERT_users (AddUserRequest_Name req) d)"
      by (auto simp: handleAddUser_def Let_def split: prod.splits sum.splits)
    have "\<exists>name. name \<noteq> [] \<and>
      (snd (handleAddUser app w r d) =
         d\<lparr>calls := calls d @ [QueryRowCall (Context r) INSERT_users name]\<rparr> \<or>
       snd (handleAddUser app w r d) =
         d\<lparr>calls := calls d @ [QueryRowCall (Context r) INSERT_users name],
           users_id_seq := users_id_seq d + 1\<rparr> \<or>
       users_id_seq d \<notin> User_ID ` set (table_users d) \<and>
       snd (handleAddUser app w r d) =
         d\<lparr>calls := calls d @ [QueryRowCall (Context r) INSERT_users name],
           users_id_seq := users_id_seq d + 1,
           table_users := table_users d @ [\<lparr>User_ID = users_id_seq d, User_Name = name\<rparr>]\<rparr>)"
      using True
      by (intro exI [of _ "AddUserRequest_Name req"])
         (auto simp: eq pool_QueryRow_Scan_def INSERT_INTO_users_def Let_def split: option.splits)
    then show ?thesis by blast
  qed
qed

lemma effectI:
  "table_users d' = table_users d @ new \<Longrightarrow> length new \<le> 1 \<Longrightarrow> \<not> list_ex noName new \<Longrightarrow>
   (\<forall>u \<in> set new. User_ID u \<notin> User_ID ` set (table_users d)) \<Longrightarrow>
   calls d' = calls d @ cs \<Longrightarrow> list_all allowedCall cs \<Longrightarrow> effect d d'"
  unfolding effect_def by blast

lemma effect_same: "effect d d"
  by (rule effectI [of _ _ "[]" "[]"]) simp_all

lemma effect_read: "allowedCall c \<Longrightarrow> effect d (d\<lparr>calls := calls d @ [c]\<rparr>)"
  by (rule effectI [of _ _ "[]" "[c]"]) simp_all

lemma handleAddUser_effect: "effect d (snd (handleAddUser app w r d))"
proof -
  from handleAddUser_database [of app w r d]
  consider (same) "snd (handleAddUser app w r d) = d"
    | (tried) name where "name \<noteq> []" "snd (handleAddUser app w r d) =
         d\<lparr>calls := calls d @ [QueryRowCall (Context r) INSERT_users name]\<rparr>"
    | (refused) name where "name \<noteq> []" "snd (handleAddUser app w r d) =
         d\<lparr>calls := calls d @ [QueryRowCall (Context r) INSERT_users name],
           users_id_seq := users_id_seq d + 1\<rparr>"
    | (added) name where "name \<noteq> []" "users_id_seq d \<notin> User_ID ` set (table_users d)"
        "snd (handleAddUser app w r d) =
         d\<lparr>calls := calls d @ [QueryRowCall (Context r) INSERT_users name],
           users_id_seq := users_id_seq d + 1,
           table_users := table_users d @ [\<lparr>User_ID = users_id_seq d, User_Name = name\<rparr>]\<rparr>"
    by blast
  then show ?thesis
  proof cases
    case same
    then show ?thesis by (simp add: effect_same)
  next
    case tried
    then show ?thesis by (simp add: effect_read allowedCall_def)
  next
    case refused
    show ?thesis
      by (rule effectI [of _ _ "[]" "[QueryRowCall (Context r) INSERT_users name]"])
         (simp_all add: refused allowedCall_def)
  next
    case added
    show ?thesis
      by (rule effectI [of _ _ "[\<lparr>User_ID = users_id_seq d, User_Name = name\<rparr>]"
            "[QueryRowCall (Context r) INSERT_users name]"])
         (simp_all add: added allowedCall_def noName_def)
  qed
qed

lemma ServeHTTP_effect: "effect d (snd (ServeHTTP app r d))"
  by (simp add: ServeHTTP_database handleAddUser_effect effect_same effect_read allowedCall_def)

lemma wellFormed_step: "wellFormed d \<Longrightarrow> wellFormed (snd (ServeHTTP app r d))"
proof -
  assume wf: "wellFormed d"
  obtain new cs where e: "table_users (snd (ServeHTTP app r d)) = table_users d @ new"
    "length new \<le> 1" "\<not> list_ex noName new"
    "\<forall>u \<in> set new. User_ID u \<notin> User_ID ` set (table_users d)"
    using ServeHTTP_effect [of d app r] unfolding effect_def by blast
  from e(2) consider "new = []" | u where "new = [u]"
    by (cases new) auto
  then show ?thesis
  proof cases
    case 1
    with wf e(1) show ?thesis by (simp add: wellFormed_def)
  next
    case 2
    with e(3,4) have "\<not> noName u" "User_ID u \<notin> set (map User_ID (table_users d))"
      by simp_all
    with wf e(1) 2 show ?thesis by (simp add: wellFormed_def)
  qed
qed

lemma wellFormed_serveAll: "wellFormed d \<Longrightarrow> wellFormed (serveAll rs d)"
  by (induction rs arbitrary: d) (auto simp: wellFormed_step)

lemma wellFormed_created: "wellFormed (CREATE_TABLE_IF_NOT_EXISTS_users None)"
  by (simp add: wellFormed_def CREATE_TABLE_IF_NOT_EXISTS_users_def)

section \<open>The claims\<close>

text \<open>
  C1. A \<open>POST /api/users\<close> request is validated in this order. If \<open>Decode\<close> returns an
  error, the response is 400 with the body \<open>{"error": "Invalid request payload"}\<close>
  (the text and the line feed \<open>http.Error\<close> adds) and nothing is asked of the
  database. Otherwise, if the decoded name is empty, the response is 400 with
  \<open>{"error": "Name is required"}\<close> and nothing is asked of the database. Only
  otherwise is the insert attempted: the one call made is the \<open>INSERT\<close> with the decoded
  name. \<open>Decode\<close> returns an error for a body that is not JSON, and for an object with a
  key that does not select the field \<open>name\<close>. In particular a body with an unknown
  field and an empty name gets \<open>Invalid request payload\<close>, and the bodies \<open>{}\<close> and
  \<open>{"name":""}\<close> get \<open>Name is required\<close>.
\<close>

theorem C1_validation_order:
  \<open>(fst (Decode body zeroRequest) \<noteq> None \<longrightarrow>
      outcome app (POST_users body ctx) d =
        (400, ''{"error": "Invalid request payload"}\<newline>'', d)) \<and>
   (fst (Decode body zeroRequest) = None \<and>
    AddUserRequest_Name (snd (Decode body zeroRequest)) = [] \<longrightarrow>
      outcome app (POST_users body ctx) d = (400, ''{"error": "Name is required"}\<newline>'', d)) \<and>
   (fst (Decode body zeroRequest) = None \<and>
    AddUserRequest_Name (snd (Decode body zeroRequest)) \<noteq> [] \<longrightarrow>
      calls (snd (snd (outcome app (POST_users body ctx) d))) =
        calls d @
        [QueryRowCall ctx INSERT_users (AddUserRequest_Name (snd (Decode body zeroRequest)))]) \<and>
   (readValue BeginValue [] body = Inl e \<longrightarrow> fst (Decode body zeroRequest) \<noteq> None) \<and>
   (readValue BeginValue [] body = Inr (JObject ms) \<and> (k, v) \<in> set ms \<and> \<not> matchesName k \<longrightarrow>
      fst (Decode body zeroRequest) \<noteq> None) \<and>
   outcome app (POST_users ''{"name":"","extra":"x"}'' ctx) d =
     (400, ''{"error": "Invalid request payload"}\<newline>'', d) \<and>
   outcome app (POST_users ''{}'' ctx) d = (400, ''{"error": "Name is required"}\<newline>'', d) \<and>
   outcome app (POST_users ''{"name":""}'' ctx) d =
     (400, ''{"error": "Name is required"}\<newline>'', d)\<close>
proof -
  have invalid: \<open>fst (Decode body zeroRequest) \<noteq> None \<Longrightarrow>
      outcome app (POST_users body ctx) d =
        (400, ''{"error": "Invalid request payload"}\<newline>'', d)\<close> for body
    by (cases "Decode body zeroRequest") (simp add: POST_outcome)
  have required: \<open>fst (Decode body zeroRequest) = None \<Longrightarrow>
      AddUserRequest_Name (snd (Decode body zeroRequest)) = [] \<Longrightarrow>
      outcome app (POST_users body ctx) d = (400, ''{"error": "Name is required"}\<newline>'', d)\<close>
    for body
    by (cases "Decode body zeroRequest") (simp add: POST_outcome)
  have attempted: \<open>fst (Decode body zeroRequest) = None \<Longrightarrow>
      AddUserRequest_Name (snd (Decode body zeroRequest)) \<noteq> [] \<Longrightarrow>
      calls (snd (snd (outcome app (POST_users body ctx) d))) =
        calls d @
        [QueryRowCall ctx INSERT_users (AddUserRequest_Name (snd (Decode body zeroRequest)))]\<close>
    by (cases "Decode body zeroRequest")
       (simp add: POST_outcome pool_QueryRow_Scan_def INSERT_INTO_users_def Let_def
          split: option.splits)
  have e1: \<open>fst (Decode ''{"name":"","extra":"x"}'' zeroRequest) \<noteq> None\<close>
    by code_simp
  have e2: \<open>Decode ''{}'' zeroRequest = (None, zeroRequest)\<close>
    by code_simp
  have z: "AddUserRequest_Name zeroRequest = []"
    by (simp add: zeroRequest_def)
  show ?thesis
    using invalid [of body] required [of body] attempted invalid [OF e1]
      required [of \<open>''{}''\<close>] required [of \<open>''{"name":""}''\<close>] e2 Decode_empty_name z
      Decode_malformed [of body e zeroRequest] Decode_unknown_field [of body ms k v zeroRequest]
    by simp
qed

text \<open>
  C1 at concrete requests: a body that is not JSON, the body \<open>null\<close> (which decodes and
  leaves the name empty), a body with a name (the insert is the one call made), and a
  body with a second field.
\<close>

theorem C1_validation_order_witness:
  \<open>outcome exampleUp (POST_users ''not json'' incoming) twoUsers =
     (400, ''{"error": "Invalid request payload"}\<newline>'', twoUsers) \<and>
   outcome exampleUp (POST_users ''null'' incoming) twoUsers =
     (400, ''{"error": "Name is required"}\<newline>'', twoUsers) \<and>
   calls (snd (snd (outcome exampleUp (POST_users ''{"name":"Alice"}'' incoming) twoUsers))) =
     [QueryRowCall incoming INSERT_users ''Alice''] \<and>
   fst (Decode ''{"name":"Alice","extra":"x"}'' zeroRequest) \<noteq> None\<close>
proof -
  have a: \<open>fst (Decode ''not json'' zeroRequest) \<noteq> None\<close>
    by code_simp
  have b: \<open>Decode ''null'' zeroRequest = (None, zeroRequest)\<close>
    by code_simp
  have r: \<open>readValue BeginValue [] ''{"name":"Alice","extra":"x"}'' =
            Inr (JObject [(''name'', JString ''Alice''), (''extra'', JString ''x'')])\<close>
    by code_simp
  have m: \<open>\<not> matchesName ''extra''\<close>
    by code_simp
  have z: "AddUserRequest_Name zeroRequest = []" "calls twoUsers = []"
    by (simp_all add: zeroRequest_def twoUsers_def)
  show ?thesis
    using C1_validation_order [of \<open>''not json''\<close> exampleUp incoming twoUsers]
      C1_validation_order [of \<open>''null''\<close> exampleUp incoming twoUsers]
      C1_validation_order [of \<open>''{"name":"Alice"}''\<close> exampleUp incoming twoUsers]
      C1_validation_order [of \<open>''{"name":"Alice","extra":"x"}''\<close> _ _ _ _
        \<open>[(''name'', JString ''Alice''), (''extra'', JString ''x'')]\<close> \<open>''extra''\<close> \<open>JString ''x''\<close>]
      a b Decode_Alice r m z
    by simp
qed

text \<open>
  C2. For a \<open>POST /api/users\<close> request whose body decodes without error to a name that
  is not empty: if the insert succeeds (\<open>Scan\<close> returns the id), the response is 201 with
  the body \<open>{"id":<id>,"name":<name>}\<close> (the JSON text of the id and of the name, and the
  line feed \<open>Encode\<close> adds), where the id is the value the sequence of the store has just
  given, carried by no earlier row, and the row of that id and name is added to the
  table; if the insert fails, the response is 500 with the body
  \<open>{"error": "Failed to add user to database"}\<close>, which shows no id, and the table is
  as before.
\<close>

theorem C2_created_or_failed:
  \<open>(Decode body zeroRequest = (None, req) \<and> AddUserRequest_Name req \<noteq> [] \<and>
    pool_QueryRow_Scan (db app) ctx INSERT_users (AddUserRequest_Name req) d = (Inr newID, d') \<longrightarrow>
      outcome app (POST_users body ctx) d =
        (201, ''{"id":'' @ Itoa newID @ '',"name":'' @ appendString (AddUserRequest_Name req) @
              ''}\<newline>'', d') \<and>
      newID = users_id_seq d \<and> newID \<notin> User_ID ` set (table_users d) \<and>
      table_users d' =
        table_users d @ [\<lparr>User_ID = newID, User_Name = AddUserRequest_Name req\<rparr>]) \<and>
   (Decode body zeroRequest = (None, req) \<and> AddUserRequest_Name req \<noteq> [] \<and>
    pool_QueryRow_Scan (db app) ctx INSERT_users (AddUserRequest_Name req) d = (Inl e, d') \<longrightarrow>
      outcome app (POST_users body ctx) d =
        (500, ''{"error": "Failed to add user to database"}\<newline>'', d') \<and>
      table_users d' = table_users d)\<close>
  using insert_succeeds [of "db app" ctx INSERT_users "AddUserRequest_Name req" d newID d']
    insert_fails [of "db app" ctx INSERT_users "AddUserRequest_Name req" d e d']
  by (simp add: POST_decoded)

text \<open>
  C2 at concrete requests: the same body sent while the database answers (the third user
  gets the id 3) and while it cannot be reached.
\<close>

theorem C2_created_or_failed_witness:
  \<open>outcome exampleUp (POST_users ''{"name":"Alice"}'' incoming) twoUsers =
     (201, ''{"id":3,"name":"Alice"}\<newline>'',
      \<lparr>table_users = [Ann, Bob, \<lparr>User_ID = 3, User_Name = ''Alice''\<rparr>], users_id_seq = 4,
        calls = [QueryRowCall incoming INSERT_users ''Alice'']\<rparr>) \<and>
   outcome exampleDown (POST_users ''{"name":"Alice"}'' incoming) twoUsers =
     (500, ''{"error": "Failed to add user to database"}\<newline>'',
      \<lparr>table_users = [Ann, Bob], users_id_seq = 3,
        calls = [QueryRowCall incoming INSERT_users ''Alice'']\<rparr>)\<close>
proof -
  have down: \<open>pool_QueryRow_Scan (db exampleDown) incoming INSERT_users ''Alice'' twoUsers =
      (Inl ''connection refused'', \<lparr>table_users = [Ann, Bob], users_id_seq = 3,
        calls = [QueryRowCall incoming INSERT_users ''Alice'']\<rparr>)\<close>
    by (simp add: pool_QueryRow_Scan_def exampleDown_def unreachable_def twoUsers_def)
  show ?thesis
    using
      C2_created_or_failed [where body = \<open>''{"name":"Alice"}''\<close> and app = exampleUp
        and req = \<open>\<lparr>AddUserRequest_Name = ''Alice''\<rparr>\<close> and ctx = incoming and d = twoUsers
        and newID = 3
        and d' = \<open>\<lparr>table_users = [Ann, Bob, \<lparr>User_ID = 3, User_Name = ''Alice''\<rparr>],
          users_id_seq = 4, calls = [QueryRowCall incoming INSERT_users ''Alice'']\<rparr>\<close>]
      C2_created_or_failed [where body = \<open>''{"name":"Alice"}''\<close> and app = exampleDown
        and req = \<open>\<lparr>AddUserRequest_Name = ''Alice''\<rparr>\<close> and ctx = incoming and d = twoUsers
        and e = \<open>''connection refused''\<close>
        and d' = \<open>\<lparr>table_users = [Ann, Bob], users_id_seq = 3,
          calls = [QueryRowCall incoming INSERT_users ''Alice'']\<rparr>\<close>]
      Decode_Alice example_insert [of \<open>''Alice''\<close>] down marshal_examples
    by simp
qed

text \<open>
  C3. For a \<open>GET /api/users\<close> request whose query succeeds (it yields the rows of the
  table, each scanned without error), the response is 200 and its body is
  \<open>{"users":[...]}\<close> with one object \<open>{"id":...,"name":...}\<close> per row, in the order of
  the table, followed by the line feed \<open>Encode\<close> adds; for the empty table the body is
  \<open>{"users":[]}\<close>. Whatever the query yields, the body of a 200 response is never
  \<open>{"users":null}\<close>.
\<close>

theorem C3_list_users:
  \<open>(Query (db app) ctx SELECT_users = Inr (delivered (table_users d)) \<longrightarrow>
      outcome app (GET_users body ctx) d =
        (200, ''{"users":['' @ joinComma (map marshal_User (table_users d)) @ '']}\<newline>'',
         d\<lparr>calls := calls d @ [QueryCall ctx SELECT_users]\<rparr>)) \<and>
   (Query (db app) ctx SELECT_users = Inr (delivered (table_users d)) \<and> table_users d = [] \<longrightarrow>
      outcome app (GET_users body ctx) d =
        (200, ''{"users":[]}\<newline>'', d\<lparr>calls := calls d @ [QueryCall ctx SELECT_users]\<rparr>)) \<and>
   (fst (outcome app (GET_users body ctx) d) = 200 \<longrightarrow>
      fst (snd (outcome app (GET_users body ctx) d)) \<noteq> ''{"users":null}\<newline>'') \<and>
   marshal_User u =
     ''{"id":'' @ Itoa (User_ID u) @ '',"name":'' @ appendString (User_Name u) @ ''}''\<close>
proof -
  have a: \<open>Query (db app) ctx SELECT_users = Inr (delivered (table_users d)) \<Longrightarrow>
      outcome app (GET_users body ctx) d =
        (200, ''{"users":['' @ joinComma (map marshal_User (table_users d)) @ '']}\<newline>'',
         d\<lparr>calls := calls d @ [QueryCall ctx SELECT_users]\<rparr>)\<close>
    by (simp add: GET_outcome rowsLoop_delivered marshal_slice_def)
  have b: \<open>fst (outcome app (GET_users body ctx) d) = 200 \<Longrightarrow>
      fst (snd (outcome app (GET_users body ctx) d)) \<noteq> ''{"users":null}\<newline>''\<close>
    by (auto simp: GET_outcome marshal_slice_def split: sum.splits option.splits
        dest: rowsLoop_not_nil)
  from a b show ?thesis
    by (auto simp: marshal_User_def)
qed

text \<open>C3 at concrete requests: a table of two users, and the table as it is created.\<close>

theorem C3_list_users_witness:
  \<open>outcome exampleUp (GET_users [] incoming) twoUsers =
     (200, ''{"users":[{"id":1,"name":"Ann"},{"id":2,"name":"Bob"}]}\<newline>'',
      \<lparr>table_users = [Ann, Bob], users_id_seq = 3, calls = [QueryCall incoming SELECT_users]\<rparr>) \<and>
   outcome (healthy []) (GET_users [] incoming) noUsers =
     (200, ''{"users":[]}\<newline>'',
      \<lparr>table_users = [], users_id_seq = 1, calls = [QueryCall incoming SELECT_users]\<rparr>)\<close>
proof -
  have q: "Query (db exampleUp) incoming SELECT_users = Inr (delivered (table_users twoUsers))"
    "Query (db (healthy [])) incoming SELECT_users = Inr (delivered (table_users noUsers))"
    "table_users noUsers = []"
    by (simp_all add: exampleUp_def healthy_def twoUsers_def noUsers_def
        CREATE_TABLE_IF_NOT_EXISTS_users_def)
  show ?thesis
    using C3_list_users [of exampleUp incoming twoUsers "[]" Ann]
      C3_list_users [of exampleUp incoming twoUsers "[]" Bob]
      C3_list_users [of "healthy []" incoming noUsers "[]"] q marshal_examples
    by (simp add: twoUsers_def noUsers_def CREATE_TABLE_IF_NOT_EXISTS_users_def Ann_def Bob_def)
qed

text \<open>
  What \<open>handleGetUsers\<close> does report: when \<open>Query\<close> returns an error, or the \<open>Scan\<close> of
  a row returns an error, the response is 500, of content type plain text, and its body
  is the text of that error followed by a line feed: no JSON envelope. The response to
  every other request is the same whatever the texts of the errors of the pool are: no
  other endpoint shows them.
\<close>

lemma GET_reported_errors:
  \<open>(Query (db app) ctx SELECT_users = Inl e \<longrightarrow>
      fst (ServeHTTP app (GET_users body ctx) d) = plainReply 500 e) \<and>
   (Query (db app) ctx SELECT_users = Inr (delivered us @ Inl e # rest) \<longrightarrow>
      fst (ServeHTTP app (GET_users body ctx) d) = plainReply 500 e) \<and>
   (\<not> (URL_Path r = ''/api/users'' \<and> Method r = ''GET'') \<longrightarrow>
      fst (ServeHTTP (app\<lparr>db := blank (db app)\<rparr>) r d) = fst (ServeHTTP app r d)) \<and>
   resp_status (plainReply 500 e) = 500 \<and> resp_body (plainReply 500 e) = e @ ''\<newline>''\<close>
  using blank_response [of r app d]
  by (simp add: GET_response rowsLoop_scan_error plainReply_def)

text \<open>
  C4 says that every \<open>GET /api/users\<close> request whose query or row scan fails is
  answered with 500 and the text of the error. The code does so at the two places above
  and misses a third: a query that fails while its rows are read only ends the loop over
  \<open>rows.Next()\<close>, and \<open>rows.Err()\<close> is never read. Here the table has two users. A
  query that breaks after the first row is answered with 200 and a list of one user; a
  query that breaks before the first row is answered with 200 and the empty list. Neither
  response is 500, and neither shows an error.
\<close>

theorem C4_rows_error_unreported:
  \<open>table_users twoUsers = [Ann, Bob] \<and>
   Query (db exampleCut) incoming SELECT_users = Inr (delivered [Ann]) \<and>
   ServeHTTP exampleCut (GET_users [] incoming) twoUsers =
     (\<lparr>resp_status = 200, resp_header = [(''Content-Type'', ''application/json'')],
       resp_body = ''{"users":[{"id":1,"name":"Ann"}]}\<newline>''\<rparr>,
      \<lparr>table_users = [Ann, Bob], users_id_seq = 3, calls = [QueryCall incoming SELECT_users]\<rparr>) \<and>
   resp_status (fst (ServeHTTP exampleCut (GET_users [] incoming) twoUsers)) \<noteq> 500 \<and>
   Query (db (healthy [])) incoming SELECT_users = Inr (delivered []) \<and>
   ServeHTTP (healthy []) (GET_users [] incoming) twoUsers =
     (\<lparr>resp_status = 200, resp_header = [(''Content-Type'', ''application/json'')],
       resp_body = ''{"users":[]}\<newline>''\<rparr>,
      \<lparr>table_users = [Ann, Bob], users_id_seq = 3, calls = [QueryCall incoming SELECT_users]\<rparr>) \<and>
   resp_status (fst (ServeHTTP (healthy []) (GET_users [] incoming) twoUsers)) \<noteq> 500\<close>
proof -
  have q: "Query (db exampleCut) incoming SELECT_users = Inr (delivered [Ann])"
    "Query (db (healthy [])) incoming SELECT_users = Inr (delivered [])"
    by (simp_all add: exampleCut_def healthy_def)
  have one: \<open>ServeHTTP exampleCut (GET_users [] incoming) twoUsers =
     (\<lparr>resp_status = 200, resp_header = [(''Content-Type'', ''application/json'')],
       resp_body = ''{"users":[{"id":1,"name":"Ann"}]}\<newline>''\<rparr>,
      \<lparr>table_users = [Ann, Bob], users_id_seq = 3, calls = [QueryCall incoming SELECT_users]\<rparr>)\<close>
    using GET_response [of exampleCut "[]" incoming twoUsers]
      GET_outcome [of exampleCut "[]" incoming twoUsers] q(1) marshal_examples
    by (simp add: outcome_def rowsLoop_delivered marshal_slice_def marshal_User_def Ann_def
        twoUsers_def prod_eq_iff)
  have none: \<open>ServeHTTP (healthy []) (GET_users [] incoming) twoUsers =
     (\<lparr>resp_status = 200, resp_header = [(''Content-Type'', ''application/json'')],
       resp_body = ''{"users":[]}\<newline>''\<rparr>,
      \<lparr>table_users = [Ann, Bob], users_id_seq = 3, calls = [QueryCall incoming SELECT_users]\<rparr>)\<close>
    using GET_response [of "healthy []" "[]" incoming twoUsers]
      GET_outcome [of "healthy []" "[]" incoming twoUsers] q(2)
    by (simp add: outcome_def rowsLoop_delivered marshal_slice_def twoUsers_def prod_eq_iff)
  show ?thesis
    using one none q by (simp add: twoUsers_def)
qed

text \<open>
  C5. For a \<open>GET /_internal/health\<close> request the handler makes one call, a ping, under
  a context of its own: the background context with the fixed timeout \<open>dbPingTimeout\<close>
  (10 ms), whatever the context of the request is: two such requests that differ in
  body and context have the same outcome. If that ping returns no error the response is
  200 with an empty body, otherwise 502 with an empty body. The table and its sequence
  are not touched.
\<close>

theorem C5_health_check:
  "ServeHTTP app (GET_health body ctx) d =
     (\<lparr>resp_status =
         (if Ping (db app) (WithTimeout Background dbPingTimeout) = None then 200 else 502),
       resp_header = [], resp_body = []\<rparr>,
      d\<lparr>calls := calls d @ [PingCall (WithTimeout Background dbPingTimeout)]\<rparr>) \<and>
   ServeHTTP app (GET_health body ctx) d = ServeHTTP app (GET_health body' ctx') d \<and>
   dbPingTimeout = 10 * 1000000"
  by (simp add: ServeHTTP_def GET_health_def handleHealthCheck_def pool_Ping_def http_defs
      dbPingTimeout_def Millisecond_def)

text \<open>C5 at concrete requests: a database that answers, and one that cannot be reached.\<close>

theorem C5_health_check_witness:
  "ServeHTTP exampleUp (GET_health [] incoming) twoUsers =
     (\<lparr>resp_status = 200, resp_header = [], resp_body = []\<rparr>,
      \<lparr>table_users = [Ann, Bob], users_id_seq = 3,
        calls = [PingCall (WithTimeout Background 10000000)]\<rparr>) \<and>
   ServeHTTP exampleDown (GET_health [] incoming) twoUsers =
     (\<lparr>resp_status = 502, resp_header = [], resp_body = []\<rparr>,
      \<lparr>table_users = [Ann, Bob], users_id_seq = 3,
        calls = [PingCall (WithTimeout Background 10000000)]\<rparr>)"
  using C5_health_check [of exampleUp "[]" incoming twoUsers "[]" incoming]
    C5_health_check [of exampleDown "[]" incoming twoUsers "[]" incoming]
  by (simp add: exampleUp_def healthy_def exampleDown_def unreachable_def twoUsers_def)

text \<open>
  C6. Every row of the table has a name that is not empty and an id no other row has,
  and every request keeps it so: a request adds at most one row, at the end of the
  table, with a name that is not empty and an id that no row had; it changes and removes
  no row; the calls it makes are a ping, the \<open>SELECT\<close>, or the \<open>INSERT\<close> with a name that
  is not empty; a request other than \<open>POST /api/users\<close> leaves the table and its sequence
  as they are. Starting from the table as \<open>initDB\<close> creates it, the invariant holds after
  any sequence of requests.
\<close>

theorem C6_users_invariant:
  "(wellFormed d \<longrightarrow> wellFormed (snd (ServeHTTP app r d))) \<and>
   (\<exists>new cs.
      table_users (snd (ServeHTTP app r d)) = table_users d @ new \<and>
      length new \<le> 1 \<and> \<not> list_ex noName new \<and>
      (\<forall>u \<in> set new. User_ID u \<notin> User_ID ` set (table_users d)) \<and>
      calls (snd (ServeHTTP app r d)) = calls d @ cs \<and> list_all allowedCall cs) \<and>
   (\<not> (URL_Path r = ''/api/users'' \<and> Method r = ''POST'') \<longrightarrow>
      table_users (snd (ServeHTTP app r d)) = table_users d \<and>
      users_id_seq (snd (ServeHTTP app r d)) = users_id_seq d) \<and>
   wellFormed (serveAll rs (CREATE_TABLE_IF_NOT_EXISTS_users None))"
proof -
  have "\<not> (URL_Path r = ''/api/users'' \<and> Method r = ''POST'') \<Longrightarrow>
      table_users (snd (ServeHTTP app r d)) = table_users d \<and>
      users_id_seq (snd (ServeHTTP app r d)) = users_id_seq d"
    by (auto simp: ServeHTTP_database)
  then show ?thesis
    using wellFormed_step [of d app r] ServeHTTP_effect [of d app r, unfolded effect_def]
      wellFormed_serveAll [OF wellFormed_created, of rs]
    by blast
qed

text \<open>
  C6 at concrete requests on a table of two users: a \<open>POST\<close> with a name adds the third
  row and keeps the invariant; a \<open>GET\<close> and a \<open>POST\<close> with an empty name leave the table
  as it is.
\<close>

theorem C6_users_invariant_witness:
  \<open>wellFormed twoUsers \<and>
   wellFormed (snd (ServeHTTP exampleUp (POST_users ''{"name":"Alice"}'' incoming) twoUsers)) \<and>
   table_users (snd (ServeHTTP exampleUp (POST_users ''{"name":"Alice"}'' incoming) twoUsers)) =
     [Ann, Bob, \<lparr>User_ID = 3, User_Name = ''Alice''\<rparr>] \<and>
   table_users (snd (ServeHTTP exampleUp (GET_users [] incoming) twoUsers)) = [Ann, Bob] \<and>
   table_users (snd (ServeHTTP exampleUp (POST_users ''{"name":""}'' incoming) twoUsers)) =
     [Ann, Bob]\<close>
proof -
  have wf: "wellFormed twoUsers"
    by (simp add: wellFormed_def twoUsers_def noName_def Ann_def Bob_def)
  have get: "\<not> (URL_Path (GET_users [] incoming) = ''/api/users'' \<and>
                Method (GET_users [] incoming) = ''POST'')"
    by (simp add: GET_users_def)
  have t: \<open>table_users (snd (ServeHTTP exampleUp (POST_users ''{"name":"Alice"}'' incoming) twoUsers)) =
     [Ann, Bob, \<lparr>User_ID = 3, User_Name = ''Alice''\<rparr>]\<close>
    using POST_outcome [of exampleUp \<open>''{"name":"Alice"}''\<close> incoming twoUsers] Decode_Alice
      example_insert [of \<open>''Alice''\<close>]
    by (simp add: outcome_def)
  have n: \<open>table_users (snd (ServeHTTP exampleUp (POST_users ''{"name":""}'' incoming) twoUsers)) =
     [Ann, Bob]\<close>
    using POST_outcome [of exampleUp \<open>''{"name":""}''\<close> incoming twoUsers] Decode_empty_name
    by (simp add: outcome_def zeroRequest_def twoUsers_def)
  show ?thesis
    using C6_users_invariant [of twoUsers exampleUp \<open>POST_users ''{"name":"Alice"}'' incoming\<close>]
      C6_users_invariant [of twoUsers exampleUp \<open>GET_users [] incoming\<close>] wf get t n
    by (simp add: twoUsers_def)
qed

text \<open>
  C7. For a request to \<open>/api/users\<close> whose method is neither \<open>GET\<close> nor \<open>POST\<close>, no
  handler runs: nothing is asked of the database, no header is set and nothing is
  written. The client gets the response of a handler that wrote nothing: status 200 and
  an empty body, no 405 and no error text.
\<close>

theorem C7_other_methods:
  "m \<noteq> ''GET'' \<and> m \<noteq> ''POST'' \<longrightarrow>
     apiUsers app w \<lparr>Method = m, URL_Path = ''/api/users'', Body = body, Context = ctx\<rparr> d =
       (w, d) \<and>
     ServeHTTP app \<lparr>Method = m, URL_Path = ''/api/users'', Body = body, Context = ctx\<rparr> d =
       (\<lparr>resp_status = 200, resp_header = [], resp_body = []\<rparr>, d)"
  by (simp add: ServeHTTP_def apiUsers_def http_defs)

text \<open>C7 at concrete requests: \<open>DELETE\<close>, and \<open>get\<close> in lower case.\<close>

theorem C7_other_methods_witness:
  "ServeHTTP exampleUp
     \<lparr>Method = ''DELETE'', URL_Path = ''/api/users'', Body = [], Context = incoming\<rparr> twoUsers =
     (\<lparr>resp_status = 200, resp_header = [], resp_body = []\<rparr>, twoUsers) \<and>
   ServeHTTP exampleDown
     \<lparr>Method = ''get'', URL_Path = ''/api/users'', Body = [], Context = incoming\<rparr> twoUsers =
     (\<lparr>resp_status = 200, resp_header = [], resp_body = []\<rparr>, twoUsers)"
  using C7_other_methods [of "''DELETE''" exampleUp _ "[]" incoming twoUsers]
    C7_other_methods [of "''get''" exampleDown _ "[]" incoming twoUsers]
  by simp

text \<open>
  C8, as stated, fails: a variable that is set to the empty string is set, and its value
  is not used; the default takes its place. Here \<open>DB_USER\<close> is set to the empty string
  and the user of the connection is \<open>postgres\<close>.
\<close>

theorem C8_set_empty_counterexample:
  "map_of [(DbUserEnvKey, [])] DbUserEnvKey = Some [] \<and>
   dbUser (initDB_settings [(DbUserEnvKey, [])]) = ''postgres'' \<and>
   dbUser (initDB_settings [(DbUserEnvKey, [])]) \<noteq> []"
  by (simp add: initDB_settings_def Getenv_def DbUserEnvKey_def DbPasswordEnvKey_def
      DbHostEnvKey_def DbPortEnvKey_def DbNameEnvKey_def)

text \<open>
  C8, amended: every configuration variable is optional. A variable that is unset or set
  to the empty string takes its default (\<open>APP_PORT\<close> 8080, \<open>DB_USER\<close> postgres,
  \<open>DB_HOST\<close> localhost, \<open>DB_PORT\<close> 5432, \<open>DB_NAME\<close> postgres, \<open>DB_PASSWORD\<close> the empty
  string); a variable set to a non-empty value is used as it is.
\<close>

theorem C8_config_defaults:
  "main_port env =
     (case map_of env AppPortEnvKey of None \<Rightarrow> ''8080''
      | Some v \<Rightarrow> if v = [] then ''8080'' else v) \<and>
   dbUser (initDB_settings env) =
     (case map_of env DbUserEnvKey of None \<Rightarrow> ''postgres''
      | Some v \<Rightarrow> if v = [] then ''postgres'' else v) \<and>
   dbHost (initDB_settings env) =
     (case map_of env DbHostEnvKey of None \<Rightarrow> ''localhost''
      | Some v \<Rightarrow> if v = [] then ''localhost'' else v) \<and>
   dbPort (initDB_settings env) =
     (case map_of env DbPortEnvKey of None \<Rightarrow> ''5432''
      | Some v \<Rightarrow> if v = [] then ''5432'' else v) \<and>
   dbName (initDB_settings env) =
     (case map_of env DbNameEnvKey of None \<Rightarrow> ''postgres''
      | Some v \<Rightarrow> if v = [] then ''postgres'' else v) \<and>
   dbPassword (initDB_settings env) =
     (case map_of env DbPasswordEnvKey of None \<Rightarrow> [] | Some v \<Rightarrow> v)"
  by (simp add: main_port_def initDB_settings_def Getenv_def Let_def split: option.splits)

text \<open>
  C9. A \<open>POST /api/users\<close> request with an empty body (no byte at all): \<open>Decode\<close>
  returns \<open>io.EOF\<close>, and the response is 400 with the body
  \<open>{"error": "Invalid request payload"}\<close>, not \<open>{"error": "Name is required"}\<close>.
\<close>

theorem C9_empty_body:
  \<open>Decode [] zeroRequest = (Some EOF, zeroRequest) \<and>
   outcome app (POST_users [] ctx) d = (400, ''{"error": "Invalid request payload"}\<newline>'', d) \<and>
   outcome app (POST_users [] ctx) d \<noteq> (400, ''{"error": "Name is required"}\<newline>'', d)\<close>
  by (simp add: POST_outcome Decode_empty)

text \<open>
  C10. The key of the body selects the field \<open>name\<close> without regard to the case of its
  letters: for a key that equals \<open>name\<close> after folding, and a value of plain characters
  that is not empty, the body \<open>{"<key>":"<value>"}\<close> decodes without error to that
  name, and if the insert succeeds the response is 201 with the new id and that name. In
  particular the bodies \<open>{"Name":"Alice"}\<close> and \<open>{"NAME":"Alice"}\<close> decode to the name
  Alice and lead to 201.
\<close>

theorem C10_field_name_case:
  \<open>(list_all plainChar key \<and> foldName key = foldName ''name'' \<and> list_all plainChar v \<and> v \<noteq> [] \<and>
    pool_QueryRow_Scan (db app) ctx INSERT_users v d = (Inr newID, d') \<longrightarrow>
      Decode (''{"'' @ key @ ''":"'' @ v @ ''"}'') zeroRequest =
        (None, \<lparr>AddUserRequest_Name = v\<rparr>) \<and>
      outcome app (POST_users (''{"'' @ key @ ''":"'' @ v @ ''"}'') ctx) d =
        (201, ''{"id":'' @ Itoa newID @ '',"name":'' @ appendString v @ ''}\<newline>'', d')) \<and>
   Decode ''{"Name":"Alice"}'' zeroRequest = (None, \<lparr>AddUserRequest_Name = ''Alice''\<rparr>) \<and>
   Decode ''{"NAME":"Alice"}'' zeroRequest = (None, \<lparr>AddUserRequest_Name = ''Alice''\<rparr>) \<and>
   (pool_QueryRow_Scan (db app) ctx INSERT_users ''Alice'' d = (Inr newID, d') \<longrightarrow>
      outcome app (POST_users ''{"Name":"Alice"}'' ctx) d =
        (201, ''{"id":'' @ Itoa newID @ '',"name":"Alice"}\<newline>'', d') \<and>
      outcome app (POST_users ''{"NAME":"Alice"}'' ctx) d =
        (201, ''{"id":'' @ Itoa newID @ '',"name":"Alice"}\<newline>'', d'))\<close>
proof -
  have general: \<open>outcome app (POST_users (''{"'' @ key @ ''":"'' @ v @ ''"}'') ctx) d =
        (201, ''{"id":'' @ Itoa newID @ '',"name":'' @ appendString v @ ''}\<newline>'', d')\<close>
    if "list_all plainChar key" "foldName key = foldName ''name''" "list_all plainChar v" "v \<noteq> []"
       "pool_QueryRow_Scan (db app) ctx INSERT_users v d = (Inr newID, d')" for key v
    using that Decode_one_member [of key v]
      POST_decoded [of \<open>''{"'' @ key @ ''":"'' @ v @ ''"}''\<close> \<open>\<lparr>AddUserRequest_Name = v\<rparr>\<close> app ctx d]
    by simp
  have k1: \<open>list_all plainChar ''Name''\<close> \<open>foldName ''Name'' = foldName ''name''\<close>
    and k2: \<open>list_all plainChar ''NAME''\<close> \<open>foldName ''NAME'' = foldName ''name''\<close>
    and a: \<open>list_all plainChar ''Alice''\<close>
    by code_simp+
  show ?thesis
    using general [of key v] Decode_one_member [of key v]
      general [OF k1 a, simplified] general [OF k2 a, simplified]
      Decode_one_member [OF k1(1) a k1(2), simplified]
      Decode_one_member [OF k2(1) a k2(2), simplified] marshal_examples(4)
    by simp
qed

text \<open>C10 at concrete requests: the keys \<open>nAmE\<close> and \<open>NAME\<close>, on a table of two users.\<close>

theorem C10_field_name_case_witness:
  \<open>Decode ''{"nAmE":"Bob Ross"}'' zeroRequest = (None, \<lparr>AddUserRequest_Name = ''Bob Ross''\<rparr>) \<and>
   outcome exampleUp (POST_users ''{"nAmE":"Bob Ross"}'' incoming) twoUsers =
     (201, ''{"id":3,"name":"Bob Ross"}\<newline>'',
      \<lparr>table_users = [Ann, Bob, \<lparr>User_ID = 3, User_Name = ''Bob Ross''\<rparr>], users_id_seq = 4,
        calls = [QueryRowCall incoming INSERT_users ''Bob Ross'']\<rparr>) \<and>
   outcome exampleUp (POST_users ''{"NAME":"Alice"}'' incoming) twoUsers =
     (201, ''{"id":3,"name":"Alice"}\<newline>'',
      \<lparr>table_users = [Ann, Bob, \<lparr>User_ID = 3, User_Name = ''Alice''\<rparr>], users_id_seq = 4,
        calls = [QueryRowCall incoming INSERT_users ''Alice'']\<rparr>)\<close>
proof -
  have k: \<open>list_all plainChar ''nAmE''\<close> \<open>foldName ''nAmE'' = foldName ''name''\<close>
    \<open>list_all plainChar ''Bob Ross''\<close>
    by code_simp+
  show ?thesis
    using
      C10_field_name_case [where key = \<open>''nAmE''\<close> and v = \<open>''Bob Ross''\<close> and app = exampleUp
        and ctx = incoming and d = twoUsers and newID = 3
        and d' = \<open>\<lparr>table_users = [Ann, Bob, \<lparr>User_ID = 3, User_Name = ''Bob Ross''\<rparr>],
          users_id_seq = 4, calls = [QueryRowCall incoming INSERT_users ''Bob Ross'']\<rparr>\<close>]
      C10_field_name_case [where key = \<open>''nAmE''\<close> and v = \<open>''Bob Ross''\<close> and app = exampleUp
        and ctx = incoming and d = twoUsers and newID = 3
        and d' = \<open>\<lparr>table_users = [Ann, Bob, \<lparr>User_ID = 3, User_Name = ''Alice''\<rparr>],
          users_id_seq = 4, calls = [QueryRowCall incoming INSERT_users ''Alice'']\<rparr>\<close>]
      k example_insert [of \<open>''Bob Ross''\<close>] example_insert [of \<open>''Alice''\<close>] marshal_examples
    by simp
qed

end
